theory Spec2Isabelle
  imports
    Complex_Main
    "HOL-Library.Char_ord"
    "HOL-Library.List_Lexorder"
    "HOL-Library.Multiset"
begin

section \<open>JavaScript values\<close>

text \<open>
  The services are TypeScript; at run time every value read from the oracle's reply or
  from a serialized column is a JavaScript value produced by \<^verbatim>\<open>JSON.parse\<close>.
  Numbers are modelled as exact reals (the infinities and the rounding of IEEE doubles
  are outside the model; the one number that is \<^verbatim>\<open>NaN\<close> on a path of the services,
  the limit of a batch, has the type \<open>jsnumber\<close> below), strings as ASCII text,
  \<^verbatim>\<open>undefined\<close> as \<open>None\<close> of an option, and a thrown exception as the \<open>Inl\<close> of
  a sum.
\<close>

datatype json =
    JNull
  | JBool bool
  | JNum real
  | JStr string
  | JArr "json list"
  | JObj "(string \<times> json) list"

datatype error =
    TypeError
  | SyntaxError
  | OracleError
  | StorageError
  | UserHasNoRatings int
  | Error string

text \<open>Truthiness, as \<^verbatim>\<open>||\<close>, \<^verbatim>\<open>&&\<close> and \<^verbatim>\<open>if\<close> read a value.\<close>

fun truthy :: "json \<Rightarrow> bool" where
  "truthy JNull = False"
| "truthy (JBool b) = b"
| "truthy (JNum x) = (x \<noteq> 0)"
| "truthy (JStr s) = (s \<noteq> [])"
| "truthy (JArr xs) = True"
| "truthy (JObj kvs) = True"

text \<open>\<^verbatim>\<open>v || d\<close> for a possibly undefined \<open>v\<close>.\<close>

definition orDefault :: "json option \<Rightarrow> json \<Rightarrow> json" where
  "orDefault v d = (case v of None \<Rightarrow> d | Some x \<Rightarrow> if truthy x then x else d)"

text \<open>
  \<^verbatim>\<open>v.key\<close> for the keys the services read (none of them is a built-in property of a
  string, a number or an array): reading a property of \<^verbatim>\<open>null\<close> throws a TypeError, an
  object yields its own property or \<^verbatim>\<open>undefined\<close>, every other value yields
  \<^verbatim>\<open>undefined\<close>.
\<close>

fun getProp :: "json \<Rightarrow> string \<Rightarrow> error + json option" where
  "getProp JNull key = Inl TypeError"
| "getProp (JObj kvs) key = Inr (map_of kvs key)"
| "getProp (JBool b) key = Inr None"
| "getProp (JNum x) key = Inr None"
| "getProp (JStr s) key = Inr None"
| "getProp (JArr xs) key = Inr None"

text \<open>
  \<^verbatim>\<open>a === b\<close> between values of two separate \<^verbatim>\<open>JSON.parse\<close> calls: primitives compare
  by value, arrays and objects by reference, so two parsed ones are never equal.
\<close>

fun strictEq :: "json \<Rightarrow> json \<Rightarrow> bool" where
  "strictEq JNull JNull = True"
| "strictEq (JBool a) (JBool b) = (a = b)"
| "strictEq (JNum a) (JNum b) = (a = b)"
| "strictEq (JStr a) (JStr b) = (a = b)"
| "strictEq a b = False"

text \<open>
  The limit of a batch is a JavaScript number. \<^verbatim>\<open>POST /api/enrich\<close> makes it with
  \<^verbatim>\<open>parseInt(req.body.count || '75', 10)\<close>, which is \<^verbatim>\<open>NaN\<close> when the text does not
  start with a number, and rejects it only \<^verbatim>\<open>if (count < 1 || count > 200)\<close>: both
  comparisons are false at \<^verbatim>\<open>NaN\<close>, so \<^verbatim>\<open>NaN\<close> reaches \<^verbatim>\<open>enrichMovies\<close>.
  \<open>geNumber a b\<close> is \<^verbatim>\<open>a >= b\<close> and \<open>leNumber a b\<close> is \<^verbatim>\<open>a <= b\<close> for a number
  \<open>a\<close> that is not \<^verbatim>\<open>NaN\<close>: every comparison with \<^verbatim>\<open>NaN\<close> is false.
\<close>

datatype jsnumber = Num real | NaN

fun geNumber :: "real \<Rightarrow> jsnumber \<Rightarrow> bool" where
  "geNumber a (Num b) = (a \<ge> b)"
| "geNumber a NaN = False"


definition isWhiteSpace :: "char \<Rightarrow> bool" where
  "isWhiteSpace c = (c \<in> set [CHR 0x09, CHR 0x0A, CHR 0x0B, CHR 0x0C, CHR 0x0D, CHR 0x20])"

definition trim :: "string \<Rightarrow> string" where
  "trim s = rev (dropWhile isWhiteSpace (rev (dropWhile isWhiteSpace s)))"

text \<open>
  \<^verbatim>\<open>Number(x.toFixed(2))\<close>: below \<open>10^21\<close> in magnitude, the integer \<open>n\<close> with
  \<open>n / 100\<close> nearest to \<open>\<bar>x\<bar>\<close> (the larger one on a tie), with the sign of \<open>x\<close>; from
  \<open>10^21\<close> on \<^verbatim>\<open>toFixed\<close> prints the number itself.
\<close>

definition toFixed2 :: "real \<Rightarrow> real" where
  "toFixed2 x =
     (if 10 ^ 21 \<le> \<bar>x\<bar> then x
      else if x < 0 then - (of_int \<lfloor>(- x) * 100 + 1 / 2\<rfloor> / 100)
      else of_int \<lfloor>x * 100 + 1 / 2\<rfloor> / 100)"

text \<open>
  \<^verbatim>\<open>a.localeCompare(b)\<close> on release dates. The collation of the host locale is not part
  of the repository; on the zero-padded ISO dates of the catalogue it orders as the
  code units do, which is what \<open><\<close> on strings is here.
\<close>

definition localeCompare :: "string \<Rightarrow> string \<Rightarrow> int" where
  "localeCompare a b = (if a < b then - 1 else if a = b then 0 else 1)"

text \<open>\<^verbatim>\<open>Array.prototype.sort(cmp)\<close>, a stable sort.\<close>

fun insertBy :: "('a \<Rightarrow> 'a \<Rightarrow> int) \<Rightarrow> 'a \<Rightarrow> 'a list \<Rightarrow> 'a list" where
  "insertBy cmp x [] = [x]"
| "insertBy cmp x (y # ys) = (if cmp x y \<le> 0 then x # y # ys else y # insertBy cmp x ys)"

definition sortBy :: "('a \<Rightarrow> 'a \<Rightarrow> int) \<Rightarrow> 'a list \<Rightarrow> 'a list" where
  "sortBy cmp xs = foldr (insertBy cmp) xs []"


definition sliceLast10 :: "'a list \<Rightarrow> 'a list" where
  "sliceLast10 xs = drop (length xs - 10) xs"

section \<open>Data model (config/database.ts, models)\<close>

record Movie =
  movieId :: int
  imdbId :: string
  title :: string
  overview :: string
  productionCompanies :: string
  releaseDate :: string
  budget :: real
  revenue :: real
  runtime :: real
  language :: string
  genres :: string
  status :: string

record Rating =
  ratingId :: int
  userId :: int
  rating_movieId :: int
  rating :: real
  timestamp :: int

text \<open>
  The three oracle-made fields are typed \<^verbatim>\<open>string\<close>, \<^verbatim>\<open>number\<close>, \<^verbatim>\<open>string\<close> in
  TypeScript, but hold whatever truthy value the reply carried; they are kept as values.
\<close>

record MovieEnrichment =
  enrichment_movieId :: int
  awardPotential :: json
  popularityQualityIndex :: json
  emotionalGenres :: json
  productionCompanyRollingROI :: "real option"
  productionEffectivenessScore :: real

record RatingStats =
  stats_avgRating :: "real option"
  stats_count :: nat

record EnrichmentInput =
  input_movie :: Movie
  input_avgRating :: real
  input_ratingCount :: nat
  input_companyROI :: "real option"

record LLMEnrichments =
  llm_awardPotential :: json
  llm_popularityQualityIndex :: json
  llm_emotionalGenres :: json

record UserPreferences =
  pref_userId :: int
  favoriteGenres :: json
  averageRating :: real
  preferredEmotionalTones :: json
  budgetPreference :: json
  summary :: json

type_synonym EnrichedMovie = "Movie \<times> MovieEnrichment"

record Recommendation =
  rec_movie :: EnrichedMovie
  score :: json
  reasoning :: json

text \<open>
  The store: the \<^verbatim>\<open>movies\<close> and \<^verbatim>\<open>ratings\<close> tables in storage order, and the
  \<^verbatim>\<open>movie_enrichments\<close> table, whose primary key is the movie id.
\<close>

record Database =
  movies :: "Movie list"
  ratings :: "Rating list"
  movie_enrichments :: "int \<rightharpoonup> MovieEnrichment"

text \<open>
  What a completion request carries, the fixed wording of each prompt left out. The
  lists a prompt embeds through \<^verbatim>\<open>JSON.stringify\<close> are kept as values.
\<close>

datatype prompt =
    EnrichmentPrompt Movie real nat
  | PreferencesPrompt nat real json
  | RecommendationPrompt int json string json
  | ComparisonPrompt json "json option" bool

text \<open>
  What the services do not own: \<^verbatim>\<open>JSON.parse\<close> (\<open>None\<close> when it throws), the oracle
  (\<open>complete n p\<close> is the text of the first choice of the reply to prompt \<open>p\<close>, or the
  failure of the call; the oracle is not a function of its prompt, so within a batch
  \<open>n\<close> is the position of the item, and \<open>0\<close> elsewhere), whether the write of
  item \<open>n\<close> of a batch fails, and what SQLite makes of a value bound to a column of
  another type than the value's. Reads of the store are total: the failures an item of a
  batch can meet are those of its oracle call and of its write.

  The columns of \<^verbatim>\<open>movie_enrichments\<close> that hold the oracle-made values are declared
  \<^verbatim>\<open>TEXT\<close> and \<^verbatim>\<open>REAL\<close>, and SQLite converts a value to the declared type of its
  column whenever the value reads as one of that type: \<open>converted e REAL v\<close> is what a
  \<^verbatim>\<open>REAL\<close> column holds after a \<open>v\<close> that is no number was bound to it (the text
  \<^verbatim>\<open>'0'\<close> is held as the number \<open>0\<close>, a text that does not read as a number stays
  a text), \<open>converted e TEXT v\<close> what a \<^verbatim>\<open>TEXT\<close> column holds of a \<open>v\<close> that is
  no text.
\<close>

datatype affinity = TEXT | REAL

record env =
  JSON_parse :: "string \<Rightarrow> json option"
  complete :: "nat \<Rightarrow> prompt \<Rightarrow> error + string option"
  writeFault :: "nat \<Rightarrow> bool"
  converted :: "affinity \<Rightarrow> json \<Rightarrow> json"

text \<open>
  Modelled from the spec: the declaration of the \<^verbatim>\<open>movies\<close> table is not among the
  sources. The specification gives every movie of the catalogue a numeric identifier, by
  which movies are fetched and by which enrichments are keyed: no two rows of the table
  share their id.
\<close>

definition movieIdIsKey :: "Database \<Rightarrow> bool" where
  "movieIdIsKey db = distinct (map movieId (movies db))"

section \<open>Repository queries (config/database.ts)\<close>

text \<open>
  \<open>getMovies\<close> as the services call it, with no limit; \<open>getRatingsByUserId\<close> orders
  by timestamp, latest first.
\<close>

definition getMovies :: "Database \<Rightarrow> Movie list" where
  "getMovies db = movies db"

definition getMoviesByIds :: "Database \<Rightarrow> int list \<Rightarrow> Movie list" where
  "getMoviesByIds db movieIds = filter (\<lambda>m. movieId m \<in> set movieIds) (movies db)"

definition getRatingsByUserId :: "Database \<Rightarrow> int \<Rightarrow> Rating list" where
  "getRatingsByUserId db uid =
     rev (sort_key timestamp (filter (\<lambda>r. userId r = uid) (ratings db)))"

text \<open>An aggregate without grouping always yields one row; \<^verbatim>\<open>AVG\<close> of no row is NULL.\<close>

definition getAverageRatingForMovie :: "Database \<Rightarrow> int \<Rightarrow> RatingStats option" where
  "getAverageRatingForMovie db mid =
     (let rs = filter (\<lambda>r. rating_movieId r = mid) (ratings db)
      in Some \<lparr> stats_avgRating =
                  (if rs = [] then None
                   else Some (sum_list (map rating rs) / real (length rs))),
                stats_count = length rs \<rparr>)"

definition initializeEnrichmentTable :: "Database \<Rightarrow> Database" where
  "initializeEnrichmentTable db = db"

text \<open>
  \<^verbatim>\<open>CREATE TABLE IF NOT EXISTS movie_enrichments (movieId INTEGER PRIMARY KEY,
  awardPotential TEXT, popularityQualityIndex REAL, emotionalGenres TEXT,
  productionCompanyRollingROI REAL, productionEffectivenessScore REAL)\<close>. A column holds
  \<^verbatim>\<open>NULL\<close> as \<^verbatim>\<open>NULL\<close>, a \<^verbatim>\<open>REAL\<close> column a number and a \<^verbatim>\<open>TEXT\<close> column a
  text as they are, and any other value as SQLite converts it.
\<close>

fun columnValue :: "env \<Rightarrow> affinity \<Rightarrow> json \<Rightarrow> json" where
  "columnValue e a JNull = JNull"
| "columnValue e REAL (JNum x) = JNum x"
| "columnValue e TEXT (JStr s) = JStr s"
| "columnValue e a v = converted e a v"

text \<open>
  The row the table holds for a record has each oracle-made value as its column stores
  it. The id is an integer in its \<^verbatim>\<open>INTEGER\<close> column, and the two metrics are numbers
  (or \<^verbatim>\<open>NULL\<close>) in \<^verbatim>\<open>REAL\<close> columns.
\<close>

definition storedRow :: "env \<Rightarrow> MovieEnrichment \<Rightarrow> MovieEnrichment" where
  "storedRow e enrichment =
     \<lparr> enrichment_movieId = enrichment_movieId enrichment,
       awardPotential = columnValue e TEXT (awardPotential enrichment),
       popularityQualityIndex = columnValue e REAL (popularityQualityIndex enrichment),
       emotionalGenres = columnValue e TEXT (emotionalGenres enrichment),
       productionCompanyRollingROI = productionCompanyRollingROI enrichment,
       productionEffectivenessScore = productionEffectivenessScore enrichment \<rparr>"

text \<open>\<^verbatim>\<open>INSERT OR REPLACE\<close>: the row takes the place of the one with the same id.\<close>

definition saveEnrichment :: "env \<Rightarrow> nat \<Rightarrow> MovieEnrichment \<Rightarrow> Database \<Rightarrow> error + Database" where
  "saveEnrichment e i enrichment db =
     (if writeFault e i then Inl StorageError
      else Inr (db \<lparr> movie_enrichments :=
                       (movie_enrichments db)
                         (enrichment_movieId enrichment \<mapsto> storedRow e enrichment) \<rparr>))"

definition getEnrichedMoviesWithDetails :: "Database \<Rightarrow> EnrichedMovie list" where
  "getEnrichedMoviesWithDetails db =
     List.map_filter
       (\<lambda>m. case movie_enrichments db (movieId m) of None \<Rightarrow> None | Some e \<Rightarrow> Some (m, e))
       (movies db)"

section \<open>Financial metrics (services/enrichmentService.ts)\<close>

subsection \<open>calculateProductionEffectiveness\<close>

definition ratingScore :: "real \<Rightarrow> real" where
  "ratingScore avgRating = (avgRating / 5) * 100"

definition roiScore :: "Movie \<Rightarrow> real" where
  "roiScore movie =
     (if budget movie > 0 \<and> revenue movie > 0
      then (let roi = ((revenue movie - budget movie) / budget movie) * 100
            in min 100 (max 0 ((roi + 50) / 2)))
      else 0)"

definition revenueScore :: "Movie \<Rightarrow> real" where
  "revenueScore movie =
     (if revenue movie > 0 then min 100 ((log 10 (revenue movie) / 9) * 100) else 0)"

definition calculateProductionEffectiveness :: "Movie \<Rightarrow> real \<Rightarrow> real" where
  "calculateProductionEffectiveness movie avgRating =
     toFixed2 (ratingScore avgRating * (4 / 10) + roiScore movie * (35 / 100)
               + revenueScore movie * (25 / 100))"

subsection \<open>calculateCompanyROI\<close>

text \<open>\<^verbatim>\<open>c.name || ''\<close>, and its \<^verbatim>\<open>map\<close> over the parsed array, left to right.\<close>

definition companyNameOf :: "json \<Rightarrow> error + json" where
  "companyNameOf c =
     (case getProp c ''name'' of Inl err \<Rightarrow> Inl err | Inr v \<Rightarrow> Inr (orDefault v (JStr [])))"

fun mapNames :: "json list \<Rightarrow> error + json list" where
  "mapNames [] = Inr []"
| "mapNames (c # cs) =
     (case companyNameOf c of
        Inl err \<Rightarrow> Inl err
      | Inr n \<Rightarrow> (case mapNames cs of Inl err \<Rightarrow> Inl err | Inr ns \<Rightarrow> Inr (n # ns)))"

text \<open>
  The body of the first \<^verbatim>\<open>try\<close>: \<^verbatim>\<open>JSON.parse\<close>, then \<^verbatim>\<open>map\<close> (a TypeError on
  anything but an array) and the \<^verbatim>\<open>filter\<close> that drops the empty names.
\<close>

definition parseCompanies :: "env \<Rightarrow> string \<Rightarrow> error + json list" where
  "parseCompanies e text =
     (case JSON_parse e text of
        None \<Rightarrow> Inl SyntaxError
      | Some parsed \<Rightarrow>
          (case parsed of
             JArr cs \<Rightarrow>
               (case mapNames cs of
                  Inl err \<Rightarrow> Inl err
                | Inr names \<Rightarrow> Inr (filter (\<lambda>n. n \<noteq> JStr []) names))
           | _ \<Rightarrow> Inl TypeError))"

text \<open>\<^verbatim>\<open>mCompanies.some((c) => c.name === primaryCompany)\<close>: stops at the first match.\<close>

fun someNameIs :: "json \<Rightarrow> json list \<Rightarrow> error + bool" where
  "someNameIs primaryCompany [] = Inr False"
| "someNameIs primaryCompany (c # cs) =
     (case getProp c ''name'' of
        Inl err \<Rightarrow> Inl err
      | Inr v \<Rightarrow>
          if (case v of None \<Rightarrow> False | Some n \<Rightarrow> strictEq n primaryCompany) then Inr True
          else someNameIs primaryCompany cs)"

text \<open>The callback of the first \<^verbatim>\<open>filter\<close>, with its own \<^verbatim>\<open>try\<close>.\<close>

definition isCompanyMovie :: "env \<Rightarrow> json \<Rightarrow> Movie \<Rightarrow> bool" where
  "isCompanyMovie e primaryCompany m =
     (case JSON_parse e (if productionCompanies m = [] then ''[]'' else productionCompanies m) of
        None \<Rightarrow> False
      | Some parsed \<Rightarrow>
          (case parsed of
             JArr cs \<Rightarrow> (case someNameIs primaryCompany cs of Inl err \<Rightarrow> False | Inr b \<Rightarrow> b)
           | _ \<Rightarrow> False))"

text \<open>The callback of the second \<^verbatim>\<open>filter\<close>.\<close>

definition isEarlier :: "Movie \<Rightarrow> Movie \<Rightarrow> bool" where
  "isEarlier movie m = (releaseDate m \<noteq> [] \<and> releaseDate m < releaseDate movie)"

definition companyMovies :: "env \<Rightarrow> Database \<Rightarrow> Movie \<Rightarrow> json \<Rightarrow> Movie list" where
  "companyMovies e db movie primaryCompany =
     sortBy (\<lambda>a b. localeCompare (releaseDate a) (releaseDate b))
       (filter (isEarlier movie) (filter (isCompanyMovie e primaryCompany) (getMovies db)))"

fun roiLoop :: "Movie list \<Rightarrow> real \<times> nat \<Rightarrow> real \<times> nat" where
  "roiLoop [] acc = acc"
| "roiLoop (m # ms) (totalROI, validCount) =
     (if budget m > 0 \<and> revenue m > 0
      then roiLoop ms (totalROI + ((revenue m - budget m) / budget m) * 100, validCount + 1)
      else roiLoop ms (totalROI, validCount))"

definition calculateCompanyROI :: "env \<Rightarrow> Database \<Rightarrow> Movie \<Rightarrow> real option" where
  "calculateCompanyROI e db movie =
     (if productionCompanies movie = [] \<or> trim (productionCompanies movie) = [] then None
      else
        case parseCompanies e (productionCompanies movie) of
          Inl err \<Rightarrow> None
        | Inr companies \<Rightarrow>
            (case companies of
               [] \<Rightarrow> None
             | primaryCompany # others \<Rightarrow>
                 (let previousMovies = sliceLast10 (companyMovies e db movie primaryCompany)
                  in if previousMovies = [] then None
                     else
                       case roiLoop previousMovies (0, 0) of
                         (totalROI, validCount) \<Rightarrow>
                           if validCount > 0 then Some (totalROI / real validCount)
                           else None)))"

section \<open>Enrichment orchestrator (services/enrichmentService.ts)\<close>

subsection \<open>selectMoviesWithRatings\<close>

text \<open>
  The loop over the catalogue, with its \<^verbatim>\<open>if (moviesWithRatings.length >= limit) break\<close>
  at the head of the body.
\<close>

fun selectLoop :: "Database \<Rightarrow> jsnumber \<Rightarrow> Movie list \<Rightarrow> Movie list \<Rightarrow> Movie list" where
  "selectLoop db limit [] moviesWithRatings = moviesWithRatings"
| "selectLoop db limit (movie # rest) moviesWithRatings =
     (if geNumber (real (length moviesWithRatings)) limit then moviesWithRatings
      else
        case getAverageRatingForMovie db (movieId movie) of
          None \<Rightarrow> selectLoop db limit rest moviesWithRatings
        | Some ratingStats \<Rightarrow>
            if stats_count ratingStats > 0
            then selectLoop db limit rest (moviesWithRatings @ [movie])
            else selectLoop db limit rest moviesWithRatings)"

definition selectMoviesWithRatings :: "Database \<Rightarrow> jsnumber \<Rightarrow> Movie list" where
  "selectMoviesWithRatings db limit = selectLoop db limit (getMovies db) []"

subsection \<open>getLLMEnrichments\<close>

text \<open>\<^verbatim>\<open>content?.trim() || d\<close>.\<close>

definition trimmedOr :: "string option \<Rightarrow> string \<Rightarrow> string" where
  "trimmedOr content d =
     (case content of None \<Rightarrow> d | Some s \<Rightarrow> if trim s = [] then d else trim s)"

definition defaultEnrichments :: LLMEnrichments where
  "defaultEnrichments =
     \<lparr> llm_awardPotential = JStr ''Medium'',
       llm_popularityQualityIndex = JNum 50,
       llm_emotionalGenres = JStr ''emotional'' \<rparr>"

text \<open>The \<^verbatim>\<open>try\<close> and \<^verbatim>\<open>catch\<close> that read the reply.\<close>

definition parseLLMEnrichments :: "env \<Rightarrow> string \<Rightarrow> LLMEnrichments" where
  "parseLLMEnrichments e content =
     (case
        (case JSON_parse e content of
           None \<Rightarrow> Inl SyntaxError
         | Some parsed \<Rightarrow>
             (case getProp parsed ''awardPotential'' of
                Inl err \<Rightarrow> Inl err
              | Inr a \<Rightarrow>
                  (case getProp parsed ''popularityQualityIndex'' of
                     Inl err \<Rightarrow> Inl err
                   | Inr p \<Rightarrow>
                       (case getProp parsed ''emotionalGenres'' of
                          Inl err \<Rightarrow> Inl err
                        | Inr g \<Rightarrow>
                            Inr \<lparr> llm_awardPotential = orDefault a (JStr ''Medium''),
                                  llm_popularityQualityIndex = orDefault p (JNum 50),
                                  llm_emotionalGenres = orDefault g (JStr ''emotional'') \<rparr>))))
      of Inl err \<Rightarrow> defaultEnrichments | Inr r \<Rightarrow> r)"

definition getLLMEnrichments :: "env \<Rightarrow> nat \<Rightarrow> EnrichmentInput \<Rightarrow> error + LLMEnrichments" where
  "getLLMEnrichments e i input =
     (case complete e i (EnrichmentPrompt (input_movie input) (input_avgRating input)
                           (input_ratingCount input)) of
        Inl err \<Rightarrow> Inl err
      | Inr content \<Rightarrow> Inr (parseLLMEnrichments e (trimmedOr content ''{}'')))"

subsection \<open>enrichSingleMovie and enrichMovies\<close>

definition enrichSingleMovie :: "env \<Rightarrow> nat \<Rightarrow> Database \<Rightarrow> Movie \<Rightarrow> error + MovieEnrichment" where
  "enrichSingleMovie e i db movie =
     (let ratingStats = getAverageRatingForMovie db (movieId movie);
          avgRating = (case ratingStats of
                         None \<Rightarrow> 0
                       | Some st \<Rightarrow> (case stats_avgRating st of None \<Rightarrow> 0 | Some a \<Rightarrow> a));
          ratingCount = (case ratingStats of None \<Rightarrow> 0 | Some st \<Rightarrow> stats_count st);
          companyROI = calculateCompanyROI e db movie;
          input = \<lparr> input_movie = movie, input_avgRating = avgRating,
                    input_ratingCount = ratingCount, input_companyROI = companyROI \<rparr>
      in case getLLMEnrichments e i input of
           Inl err \<Rightarrow> Inl err
         | Inr llmEnrichments \<Rightarrow>
             Inr \<lparr> enrichment_movieId = movieId movie,
                   awardPotential = llm_awardPotential llmEnrichments,
                   popularityQualityIndex = llm_popularityQualityIndex llmEnrichments,
                   emotionalGenres = llm_emotionalGenres llmEnrichments,
                   productionCompanyRollingROI = companyROI,
                   productionEffectivenessScore =
                     calculateProductionEffectiveness movie avgRating \<rparr>)"

text \<open>The body of the \<^verbatim>\<open>try\<close> in the batch loop: enrich, then save.\<close>

definition processItem :: "env \<Rightarrow> nat \<Rightarrow> Database \<Rightarrow> Movie \<Rightarrow> error + MovieEnrichment \<times> Database" where
  "processItem e i db movie =
     (case enrichSingleMovie e i db movie of
        Inl err \<Rightarrow> Inl err
      | Inr enrichment \<Rightarrow>
          (case saveEnrichment e i enrichment db of
             Inl err \<Rightarrow> Inl err
           | Inr db' \<Rightarrow> Inr (enrichment, db')))"

text \<open>
  The loop over the selected movies; the \<^verbatim>\<open>catch\<close> logs and goes on. The pause between
  items has no effect on the result.
\<close>

fun enrichLoop ::
  "env \<Rightarrow> nat \<Rightarrow> Movie list \<Rightarrow> MovieEnrichment list \<times> Database \<Rightarrow> MovieEnrichment list \<times> Database"
where
  "enrichLoop e i [] (enrichments, db) = (enrichments, db)"
| "enrichLoop e i (movie # rest) (enrichments, db) =
     (case processItem e i db movie of
        Inl err \<Rightarrow> enrichLoop e (Suc i) rest (enrichments, db)
      | Inr (enrichment, db') \<Rightarrow> enrichLoop e (Suc i) rest (enrichments @ [enrichment], db'))"

definition enrichMovies :: "env \<Rightarrow> Database \<Rightarrow> jsnumber \<Rightarrow> MovieEnrichment list \<times> Database" where
  "enrichMovies e db movieCount =
     (let batch = selectMoviesWithRatings db movieCount;
          db1 = initializeEnrichmentTable db
      in enrichLoop e 0 batch ([], db1))"

section \<open>Recommendation service (services/recommendationService.ts)\<close>

subsection \<open>analyzeUserPreferences\<close>

definition ratedMoviesContext :: "Rating list \<Rightarrow> Movie list \<Rightarrow> json" where
  "ratedMoviesContext rs ms =
     JArr (List.map_filter
       (\<lambda>r. case find (\<lambda>m. movieId m = rating_movieId r) ms of
              None \<Rightarrow> None
            | Some m \<Rightarrow>
                Some (JObj [(''title'', JStr (title m)), (''genres'', JStr (genres m)),
                            (''overview'', JStr (overview m)), (''rating'', JNum (rating r)),
                            (''budget'', JNum (budget m)), (''revenue'', JNum (revenue m))]))
       (take 20 rs))"

definition parsePreferences :: "env \<Rightarrow> int \<Rightarrow> real \<Rightarrow> string \<Rightarrow> error + UserPreferences" where
  "parsePreferences e uid avg content =
     (case
        (case JSON_parse e content of
           None \<Rightarrow> Inl SyntaxError
         | Some parsed \<Rightarrow>
             (case getProp parsed ''favoriteGenres'' of
                Inl err \<Rightarrow> Inl err
              | Inr fg \<Rightarrow>
                  (case getProp parsed ''preferredEmotionalTones'' of
                     Inl err \<Rightarrow> Inl err
                   | Inr pt \<Rightarrow>
                       (case getProp parsed ''budgetPreference'' of
                          Inl err \<Rightarrow> Inl err
                        | Inr bp \<Rightarrow>
                            (case getProp parsed ''summary'' of
                               Inl err \<Rightarrow> Inl err
                             | Inr sm \<Rightarrow>
                                 Inr \<lparr> pref_userId = uid,
                                       favoriteGenres = orDefault fg (JArr []),
                                       averageRating = avg,
                                       preferredEmotionalTones = orDefault pt (JArr []),
                                       budgetPreference = orDefault bp (JStr ''Mixed''),
                                       summary = orDefault sm
                                         (JStr ''User preferences could not be determined'') \<rparr>)))))
      of Inl err \<Rightarrow> Inl (Error ''Failed to analyze user preferences'') | Inr r \<Rightarrow> Inr r)"

definition analyzeUserPreferences :: "env \<Rightarrow> Database \<Rightarrow> int \<Rightarrow> error + UserPreferences" where
  "analyzeUserPreferences e db uid =
     (let rs = getRatingsByUserId db uid
      in if rs = [] then Inl (UserHasNoRatings uid)
         else
           (let movieIds = map rating_movieId rs;
                ms = getMoviesByIds db movieIds;
                avg = sum_list (map rating rs) / real (length rs)
            in case complete e 0 (PreferencesPrompt (length rs) avg (ratedMoviesContext rs ms)) of
                 Inl err \<Rightarrow> Inl err
               | Inr content \<Rightarrow> parsePreferences e uid avg (trimmedOr content ''{}'')))"

definition preferencesJson :: "UserPreferences \<Rightarrow> json" where
  "preferencesJson p =
     JObj [(''userId'', JNum (of_int (pref_userId p))), (''favoriteGenres'', favoriteGenres p),
           (''averageRating'', JNum (averageRating p)),
           (''preferredEmotionalTones'', preferredEmotionalTones p),
           (''budgetPreference'', budgetPreference p), (''summary'', summary p)]"

subsection \<open>getRecommendations\<close>









subsection \<open>compareMovies\<close>

definition comparedJson :: "EnrichedMovie \<Rightarrow> json" where
  "comparedJson m =
     JObj [(''movieId'', JNum (of_int (movieId (fst m)))), (''title'', JStr (title (fst m))),
           (''genres'', JStr (genres (fst m))), (''overview'', JStr (overview (fst m))),
           (''budget'', JNum (budget (fst m))), (''revenue'', JNum (revenue (fst m))),
           (''runtime'', JNum (runtime (fst m))), (''releaseDate'', JStr (releaseDate (fst m))),
           (''awardPotential'', awardPotential (snd m)),
           (''emotionalGenres'', emotionalGenres (snd m)),
           (''popularityQualityIndex'', popularityQualityIndex (snd m)),
           (''productionCompanyRollingROI'',
              (case productionCompanyRollingROI (snd m) of None \<Rightarrow> JNull | Some x \<Rightarrow> JNum x)),
           (''productionEffectivenessScore'', JNum (productionEffectivenessScore (snd m)))]"

definition compareMovies :: "env \<Rightarrow> Database \<Rightarrow> int list \<Rightarrow> int option \<Rightarrow> error + json" where
  "compareMovies e db movieIds uid =
     (if length movieIds < 2 then Inl (Error ''At least 2 movies are required for comparison'')
      else
        (let enrichedMovies = getEnrichedMoviesWithDetails db;
             ms = filter (\<lambda>m. movieId (fst m) \<in> set movieIds) enrichedMovies
         in if length ms \<noteq> length movieIds
            then Inl (Error ''Some movies not found or not enriched'')
            else
              (let personal = (case uid of None \<Rightarrow> False | Some u \<Rightarrow> u \<noteq> 0);
                   userContext =
                     (case uid of
                        None \<Rightarrow> None
                      | Some u \<Rightarrow>
                          if u = 0 then None
                          else (case analyzeUserPreferences e db u of
                                  Inl err \<Rightarrow> None
                                | Inr preferences \<Rightarrow> Some (preferencesJson preferences)))
               in case complete e 0 (ComparisonPrompt (JArr (map comparedJson ms)) userContext
                                       personal) of
                    Inl err \<Rightarrow> Inl err
                  | Inr content \<Rightarrow>
                      (case JSON_parse e (trimmedOr content ''{}'') of
                         None \<Rightarrow> Inl (Error ''Failed to compare movies'')
                       | Some v \<Rightarrow> Inr v))))"

section \<open>Vocabulary of the specification\<close>

text \<open>
  Names for what the specification talks about when it describes the rolling ROI: the
  company list a movie declares (\<open>None\<close> when the field is blank or does not parse as a
  list of companies), the earlier releases of a company in storage order, the trailing
  window of at most ten of them, and the ROI of one movie with valid financials.

  A movie lists a company when its company field (\<^verbatim>\<open>'[]'\<close> for an empty one) parses to
  an array with an entry whose \<^verbatim>\<open>name\<close> is the company, by \<^verbatim>\<open>===\<close>, and no
  \<^verbatim>\<open>null\<close> entry stands before that entry.
\<close>

definition namesCompany :: "json \<Rightarrow> json \<Rightarrow> bool" where
  "namesCompany primaryCompany c =
     (case getProp c ''name'' of
        Inl err \<Rightarrow> False
      | Inr v \<Rightarrow> (case v of None \<Rightarrow> False | Some n \<Rightarrow> strictEq n primaryCompany))"

definition listsCompany :: "env \<Rightarrow> json \<Rightarrow> Movie \<Rightarrow> bool" where
  "listsCompany e primaryCompany m =
     (case JSON_parse e (if productionCompanies m = [] then ''[]'' else productionCompanies m) of
        None \<Rightarrow> False
      | Some parsed \<Rightarrow>
          (case parsed of
             JArr cs \<Rightarrow>
               (\<exists>k < length cs. namesCompany primaryCompany (cs ! k) \<and> JNull \<notin> set (take k cs))
           | _ \<Rightarrow> False))"

definition declaredCompanies :: "env \<Rightarrow> Movie \<Rightarrow> json list option" where
  "declaredCompanies e movie =
     (if trim (productionCompanies movie) = [] then None
      else case parseCompanies e (productionCompanies movie) of
             Inl err \<Rightarrow> None
           | Inr companies \<Rightarrow> Some companies)"

definition priorCompanyMovies :: "env \<Rightarrow> Database \<Rightarrow> Movie \<Rightarrow> json \<Rightarrow> Movie list" where
  "priorCompanyMovies e db movie primaryCompany =
     filter (\<lambda>m. listsCompany e primaryCompany m \<and> releaseDate m \<noteq> []
                 \<and> releaseDate m < releaseDate movie) (movies db)"

definition trailingWindow :: "env \<Rightarrow> Database \<Rightarrow> Movie \<Rightarrow> json \<Rightarrow> Movie list" where
  "trailingWindow e db movie primaryCompany =
     sliceLast10 (companyMovies e db movie primaryCompany)"

definition validFinancials :: "Movie \<Rightarrow> bool" where
  "validFinancials m = (budget m > 0 \<and> revenue m > 0)"

definition roiPercent :: "Movie \<Rightarrow> real" where
  "roiPercent m = ((revenue m - budget m) / budget m) * 100"

text \<open>
  For the batch: the record item \<open>i\<close> of the batch yields when its pipeline (the oracle
  call, then the write) succeeds, \<open>None\<close> when it fails; a record whose oracle-made
  values have the types \<^verbatim>\<open>MovieEnrichment\<close> declares (\<^verbatim>\<open>string\<close>, \<^verbatim>\<open>number\<close>,
  \<^verbatim>\<open>string\<close>); and a table after a list of rows was upserted.
\<close>

definition itemResult :: "env \<Rightarrow> Database \<Rightarrow> nat \<times> Movie \<Rightarrow> MovieEnrichment option" where
  "itemResult e db im =
     (case processItem e (fst im) db (snd im) of Inl err \<Rightarrow> None | Inr r \<Rightarrow> Some (fst r))"

definition hasDeclaredTypes :: "MovieEnrichment \<Rightarrow> bool" where
  "hasDeclaredTypes en =
     ((case awardPotential en of JStr s \<Rightarrow> True | _ \<Rightarrow> False)
      \<and> (case popularityQualityIndex en of JNum x \<Rightarrow> True | _ \<Rightarrow> False)
      \<and> (case emotionalGenres en of JStr s \<Rightarrow> True | _ \<Rightarrow> False))"

definition upsertAll ::
  "(int \<rightharpoonup> MovieEnrichment) \<Rightarrow> MovieEnrichment list \<Rightarrow> (int \<rightharpoonup> MovieEnrichment)" where
  "upsertAll t ens = foldl (\<lambda>t en. t(enrichment_movieId en \<mapsto> en)) t ens"



section \<open>Example data\<close>

definition exampleMovie :: Movie where
  "exampleMovie =
     \<lparr> movieId = 1, imdbId = ''tt0000001'', title = ''Example'', overview = ''An example.'',
       productionCompanies = [], releaseDate = ''2001-01-01'', budget = 100,
       revenue = 1000000000, runtime = 120, language = ''en'', genres = ''Drama'',
       status = ''Released'' \<rparr>"

definition modestMovie :: Movie where
  "modestMovie =
     \<lparr> movieId = 2, imdbId = ''tt0000002'', title = ''Modest'', overview = ''A modest film.'',
       productionCompanies = [], releaseDate = ''2002-02-02'', budget = 50,
       revenue = 100, runtime = 95, language = ''en'', genres = ''Comedy'',
       status = ''Released'' \<rparr>"

definition blockbusterMovie :: Movie where
  "blockbusterMovie =
     \<lparr> movieId = 3, imdbId = ''tt0000003'', title = ''Blockbuster'', overview = ''A hit.'',
       productionCompanies = [], releaseDate = ''2003-03-03'', budget = 200000000,
       revenue = 2000000000, runtime = 150, language = ''en'', genres = ''Action'',
       status = ''Released'' \<rparr>"

definition sequelMovie :: Movie where
  \<open>sequelMovie =
     \<lparr> movieId = 4, imdbId = ''tt0000004'', title = ''Sequel'', overview = ''The story goes on.'',
       productionCompanies = ''[{"name":"Acme"}]'', releaseDate = ''2004-04-04'', budget = 0,
       revenue = 0, runtime = 101, language = ''en'', genres = ''Drama'',
       status = ''Released'' \<rparr>\<close>

definition earlyMovie :: Movie where
  \<open>earlyMovie =
     \<lparr> movieId = 5, imdbId = ''tt0000005'', title = ''Early'', overview = ''Where it began.'',
       productionCompanies = ''[{"name":"Acme"}]'', releaseDate = ''1999-09-09'', budget = 100,
       revenue = 150, runtime = 88, language = ''en'', genres = ''Drama'',
       status = ''Released'' \<rparr>\<close>

definition exampleRatings :: "Rating list" where
  "exampleRatings =
     [\<lparr> ratingId = 1, userId = 7, rating_movieId = 1, rating = 4, timestamp = 1000 \<rparr>,
      \<lparr> ratingId = 2, userId = 8, rating_movieId = 3, rating = 5, timestamp = 1001 \<rparr>,
      \<lparr> ratingId = 3, userId = 7, rating_movieId = 3, rating = 3, timestamp = 1002 \<rparr>,
      \<lparr> ratingId = 4, userId = 8, rating_movieId = 4, rating = 2, timestamp = 1003 \<rparr>]"

definition exampleDb :: Database where
  "exampleDb =
     \<lparr> movies = [modestMovie, exampleMovie, blockbusterMovie, sequelMovie, earlyMovie],
       ratings = exampleRatings, movie_enrichments = Map.empty \<rparr>"

definition exampleParse :: "string \<Rightarrow> json option" where
  \<open>exampleParse s =
     (if s = ''{}'' then Some (JObj [])
      else if s = ''[]'' then Some (JArr [])
      else if s = ''null'' then Some JNull
      else if s = ''{"awardPotential":"High","popularityQualityIndex":87,"emotionalGenres":"dark, gritty"}''
        then Some (JObj [(''awardPotential'', JStr ''High''), (''popularityQualityIndex'', JNum 87),
                         (''emotionalGenres'', JStr ''dark, gritty'')])
      else if s = ''{"awardPotential":"","popularityQualityIndex":0,"emotionalGenres":""}''
        then Some (JObj [(''awardPotential'', JStr []), (''popularityQualityIndex'', JNum 0),
                         (''emotionalGenres'', JStr [])])
      else if s = ''{"awardPotential":"Low"}''
        then Some (JObj [(''awardPotential'', JStr ''Low'')])
      else if s = ''{"awardPotential":"High","popularityQualityIndex":"0","emotionalGenres":"dark"}''
        then Some (JObj [(''awardPotential'', JStr ''High''), (''popularityQualityIndex'', JStr ''0''),
                         (''emotionalGenres'', JStr ''dark'')])
      else if s = ''[{"name":"Acme"}]''
        then Some (JArr [JObj [(''name'', JStr ''Acme'')]])
      else if s = ''{"recommendations":[{"movieId":4,"score":90,"reasoning":"fits"},{"movieId":999},{"movieId":1}]}''
        then Some (JObj [(''recommendations'',
               JArr [JObj [(''movieId'', JNum 4), (''score'', JNum 90), (''reasoning'', JStr ''fits'')],
                     JObj [(''movieId'', JNum 999)],
                     JObj [(''movieId'', JNum 1)]])])
      else None)\<close>

definition exampleOracle :: "nat \<Rightarrow> prompt \<Rightarrow> error + string option" where
  \<open>exampleOracle i p =
     (case p of
        EnrichmentPrompt m a n \<Rightarrow>
          if i = 1 then Inl OracleError
          else if i = 0
            then Inr (Some ''{"awardPotential":"High","popularityQualityIndex":87,"emotionalGenres":"dark, gritty"}'')
          else Inr (Some ''{"awardPotential":"","popularityQualityIndex":0,"emotionalGenres":""}'')
      | PreferencesPrompt n a c \<Rightarrow> Inr (Some ''{}'')
      | RecommendationPrompt n q f c \<Rightarrow>
          Inr (Some ''{"recommendations":[{"movieId":4,"score":90,"reasoning":"fits"},{"movieId":999},{"movieId":1}]}'')
      | ComparisonPrompt c u b \<Rightarrow> Inr (Some ''{}''))\<close>

text \<open>
  Of the values the examples store, SQLite changes one: the text \<^verbatim>\<open>'0'\<close> in a
  \<^verbatim>\<open>REAL\<close> column, held as the number \<open>0\<close>.
\<close>

definition exampleConverted :: "affinity \<Rightarrow> json \<Rightarrow> json" where
  "exampleConverted a v = (if a = REAL \<and> v = JStr ''0'' then JNum 0 else v)"

definition exampleEnv :: env where
  "exampleEnv =
     \<lparr> JSON_parse = exampleParse, complete = exampleOracle, writeFault = (\<lambda>i. False),
       converted = exampleConverted \<rparr>"

text \<open>An oracle whose reply carries the index as the text \<^verbatim>\<open>"0"\<close>, which is truthy.\<close>

definition textZeroOracle :: "nat \<Rightarrow> prompt \<Rightarrow> error + string option" where
  \<open>textZeroOracle i p =
     Inr (Some ''{"awardPotential":"High","popularityQualityIndex":"0","emotionalGenres":"dark"}'')\<close>

definition textZeroEnv :: env where
  "textZeroEnv =
     \<lparr> JSON_parse = exampleParse, complete = textZeroOracle, writeFault = (\<lambda>i. False),
       converted = exampleConverted \<rparr>"

definition exampleEnrichment :: "int \<Rightarrow> MovieEnrichment" where
  "exampleEnrichment k =
     \<lparr> enrichment_movieId = k, awardPotential = JStr ''Medium'',
       popularityQualityIndex = JNum 50, emotionalGenres = JStr ''emotional'',
       productionCompanyRollingROI = None, productionEffectivenessScore = 0 \<rparr>"

definition enrichedDb :: Database where
  "enrichedDb =
     exampleDb \<lparr> movie_enrichments :=
       [1 \<mapsto> exampleEnrichment 1, 3 \<mapsto> exampleEnrichment 3, 4 \<mapsto> exampleEnrichment 4] \<rparr>"



section \<open>Properties\<close>

subsection \<open>Rounding to two decimals\<close>

lemma toFixed2_close:
  assumes "\<bar>x\<bar> < 10 ^ 21"
  shows "\<bar>toFixed2 x - x\<bar> \<le> 1 / 200"
proof (cases "x < 0")
  case True
  define z where "z = (- x) * 100 + 1 / 2"
  define w :: real where "w = of_int \<lfloor>z\<rfloor>"
  have "w \<le> z" "z < w + 1" unfolding w_def by linarith+
  moreover have "toFixed2 x = - (w / 100)"
    using True assms by (simp add: toFixed2_def z_def w_def)
  ultimately show ?thesis unfolding z_def by linarith
next
  case False
  define z where "z = x * 100 + 1 / 2"
  define w :: real where "w = of_int \<lfloor>z\<rfloor>"
  have "w \<le> z" "z < w + 1" unfolding w_def by linarith+
  moreover have "toFixed2 x = w / 100"
    using False assms by (simp add: toFixed2_def z_def w_def)
  ultimately show ?thesis unfolding z_def by linarith
qed

lemma toFixed2_hundredths:
  assumes "\<bar>x\<bar> < 10 ^ 21"
  shows "\<exists>n::int. toFixed2 x = of_int n / 100"
proof (cases "x < 0")
  case True
  with assms have "toFixed2 x = of_int (- \<lfloor>(- x) * 100 + 1 / 2\<rfloor>) / 100"
    by (simp add: toFixed2_def)
  then show ?thesis by blast
next
  case False
  with assms have "toFixed2 x = of_int \<lfloor>x * 100 + 1 / 2\<rfloor> / 100"
    by (simp add: toFixed2_def)
  then show ?thesis by blast
qed

lemma toFixed2_sign: "0 \<le> x \<Longrightarrow> 0 \<le> toFixed2 x" "x \<le> 0 \<Longrightarrow> toFixed2 x \<le> 0"
  by (auto simp add: toFixed2_def)

lemma toFixed2_bound_up:
  assumes "0 \<le> x" "x \<le> of_int k / 100"
  shows "toFixed2 x \<le> max x (of_int k / 100)"
proof (cases "10 ^ 21 \<le> \<bar>x\<bar>")
  case True
  then show ?thesis by (simp add: toFixed2_def)
next
  case False
  have "x * 100 + 1 / 2 < of_int k + 1" using assms by (simp add: field_simps)
  then have "\<lfloor>x * 100 + 1 / 2\<rfloor> \<le> k" by (simp add: floor_le_iff)
  then have "(of_int \<lfloor>x * 100 + 1 / 2\<rfloor> :: real) \<le> of_int k" by linarith
  then show ?thesis using False assms by (simp add: toFixed2_def divide_right_mono max_def)
qed

lemma toFixed2_range:
  assumes "0 \<le> x" "x \<le> 100"
  shows "0 \<le> toFixed2 x \<and> toFixed2 x \<le> 100"
  using toFixed2_bound_up[of x 10000] toFixed2_sign(1)[of x] assms by simp

lemma toFixed2_mono_nonneg:
  assumes "0 \<le> x" "x \<le> y"
  shows "toFixed2 x \<le> toFixed2 y"
proof -
  consider "y < 10 ^ 21" | "x < 10 ^ 21" "10 ^ 21 \<le> y" | "10 ^ 21 \<le> x" by linarith
  then show ?thesis
  proof cases
    case 1
    have "\<lfloor>x * 100 + 1 / 2\<rfloor> \<le> \<lfloor>y * 100 + 1 / 2\<rfloor>" using assms by (intro floor_mono) simp
    then have "(of_int \<lfloor>x * 100 + 1 / 2\<rfloor> :: real) \<le> of_int \<lfloor>y * 100 + 1 / 2\<rfloor>" by linarith
    then show ?thesis using 1 assms by (simp add: toFixed2_def divide_right_mono)
  next
    case 2
    have "x * 100 + 1 / 2 < of_int (10 ^ 23) + 1" using 2 by simp
    then have "\<lfloor>x * 100 + 1 / 2\<rfloor> \<le> 10 ^ 23" unfolding floor_le_iff[symmetric] .
    then have "(of_int \<lfloor>x * 100 + 1 / 2\<rfloor> :: real) \<le> 10 ^ 23"
      using of_int_le_iff[of "\<lfloor>x * 100 + 1 / 2\<rfloor>" "10 ^ 23", where ?'a = real] by simp
    then have "toFixed2 x \<le> 10 ^ 21" using 2 assms by (simp add: toFixed2_def)
    moreover have "toFixed2 y = y" using 2 by (simp add: toFixed2_def)
    ultimately show ?thesis using 2 by linarith
  next
    case 3
    then show ?thesis using assms by (simp add: toFixed2_def)
  qed
qed

lemma toFixed2_minus: "toFixed2 (- x) = - toFixed2 x"
  by (simp add: toFixed2_def)

lemma toFixed2_mono:
  assumes "x \<le> y"
  shows "toFixed2 x \<le> toFixed2 y"
proof -
  consider "0 \<le> x" | "x < 0" "0 \<le> y" | "y < 0" by linarith
  then show ?thesis
  proof cases
    case 1
    then show ?thesis using assms by (rule toFixed2_mono_nonneg)
  next
    case 2
    then show ?thesis using toFixed2_sign(1)[of y] toFixed2_sign(2)[of x] by linarith
  next
    case 3
    then have "toFixed2 (- y) \<le> toFixed2 (- x)"
      using assms by (intro toFixed2_mono_nonneg) simp_all
    then show ?thesis by (simp add: toFixed2_minus)
  qed
qed

subsection \<open>The three component scores\<close>

lemma ratingScore_range: "0 \<le> a \<Longrightarrow> a \<le> 5 \<Longrightarrow> 0 \<le> ratingScore a \<and> ratingScore a \<le> 100"
  by (simp add: ratingScore_def)

lemma roiScore_range: "0 \<le> roiScore m \<and> roiScore m \<le> 100"
  by (simp add: roiScore_def Let_def)

lemma revenueScore_le: "revenueScore m \<le> 100"
  by (simp add: revenueScore_def)

lemma revenueScore_ge:
  assumes "revenue m \<in> \<int>"
  shows "0 \<le> revenueScore m"
proof (cases "revenue m > 0")
  case True
  from assms obtain k :: int where k: "revenue m = of_int k" by (auto elim: Ints_cases)
  with True have "1 \<le> revenue m" by simp
  then have "0 \<le> log 10 (revenue m)" by simp
  then show ?thesis using True by (simp add: revenueScore_def)
next
  case False
  then show ?thesis by (simp add: revenueScore_def)
qed

lemma log10_billion: "log 10 (10 ^ 9) = 9"
  using log_pow_cancel[of 10 9] by simp

lemma revenueScore_sat:
  assumes "10 ^ 9 \<le> revenue m"
  shows "revenueScore m = 100"
proof -
  have pos: "0 < revenue m" using assms by (rule less_le_trans[rotated]) simp
  have "log 10 (10 ^ 9) \<le> log 10 (revenue m)" using assms pos by simp
  then have "9 \<le> log 10 (revenue m)" by (simp only: log10_billion)
  then show ?thesis using pos by (simp add: revenueScore_def min_def)
qed

subsection \<open>Production effectiveness\<close>

lemma weighted_range:
  assumes "0 \<le> a" "a \<le> 5" "revenue m \<in> \<int>"
  shows "0 \<le> ratingScore a * (4 / 10) + roiScore m * (35 / 100) + revenueScore m * (25 / 100)"
    and "ratingScore a * (4 / 10) + roiScore m * (35 / 100) + revenueScore m * (25 / 100) \<le> 100"
  using ratingScore_range[OF assms(1,2)] roiScore_range[of m] revenueScore_le[of m]
    revenueScore_ge[OF assms(3)] by linarith+

text \<open>
  Claim C4. For an average rating in \<open>[0, 5]\<close> and integer budget and revenue,
  \<open>calculateProductionEffectiveness\<close> lies in \<open>[0, 100]\<close>, is the two-decimal rounding
  of \<open>ratingScore * 0.40 + roiScore * 0.35 + revenueScore * 0.25\<close> (a whole number of
  hundredths, within half a hundredth of the weighted sum), and has no failing branch: the
  division is guarded by \<open>budget > 0\<close> and the logarithm by \<open>revenue > 0\<close>.
\<close>

theorem calculateProductionEffectiveness_range:
  assumes "0 \<le> a" and "a \<le> 5" and "budget m \<in> \<int>" and "revenue m \<in> \<int>"
  shows "0 \<le> calculateProductionEffectiveness m a
       \<and> calculateProductionEffectiveness m a \<le> 100
       \<and> calculateProductionEffectiveness m a =
           toFixed2 (ratingScore a * (4 / 10) + roiScore m * (35 / 100)
                     + revenueScore m * (25 / 100))
       \<and> (\<exists>n::int. calculateProductionEffectiveness m a = of_int n / 100)
       \<and> \<bar>calculateProductionEffectiveness m a
            - (ratingScore a * (4 / 10) + roiScore m * (35 / 100)
               + revenueScore m * (25 / 100))\<bar> \<le> 1 / 200"
proof -
  let ?w = "ratingScore a * (4 / 10) + roiScore m * (35 / 100) + revenueScore m * (25 / 100)"
  have w: "0 \<le> ?w" "?w \<le> 100" using weighted_range[OF assms(1,2,4)] by blast+
  then have small: "\<bar>?w\<bar> < 10 ^ 21" by simp
  have e: "calculateProductionEffectiveness m a = toFixed2 ?w"
    by (simp add: calculateProductionEffectiveness_def)
  show ?thesis
    unfolding e using toFixed2_range[OF w] toFixed2_hundredths[OF small] toFixed2_close[OF small]
    by blast
qed

lemma log10_hundred: "log 10 100 = 2"
  using log_pow_cancel[of 10 2] by simp

theorem calculateProductionEffectiveness_range_witness:
  "(0::real) \<le> 4 \<and> (4::real) \<le> 5 \<and> budget modestMovie \<in> \<int> \<and> revenue modestMovie \<in> \<int>
   \<and> 0 \<le> calculateProductionEffectiveness modestMovie 4
   \<and> calculateProductionEffectiveness modestMovie 4 \<le> 100
   \<and> calculateProductionEffectiveness modestMovie 4 = 6381 / 100"
proof -
  have h: "budget modestMovie \<in> \<int>" "revenue modestMovie \<in> \<int>"
    by (simp_all add: modestMovie_def)
  have v: "calculateProductionEffectiveness modestMovie 4 = 6381 / 100"
    by (simp add: calculateProductionEffectiveness_def toFixed2_def ratingScore_def
        roiScore_def revenueScore_def modestMovie_def log10_hundred)
  show ?thesis
    using calculateProductionEffectiveness_range[of 4 modestMovie] h v by simp
qed

text \<open>
  Claim C8. With the movie fixed, \<open>calculateProductionEffectiveness\<close> is monotonic
  non-decreasing in the average rating; and for budget 100 and revenue 1,000,000,000 the
  ROI score clamps to 100, the revenue score is 100, the rating score of 5 is 100 and the
  total is exactly 100.
\<close>

theorem calculateProductionEffectiveness_mono:
  "(\<forall>a a'. a \<le> a' \<longrightarrow>
       calculateProductionEffectiveness m a \<le> calculateProductionEffectiveness m a')
   \<and> (budget m = 100 \<and> revenue m = 1000000000 \<longrightarrow>
        roiScore m = 100 \<and> revenueScore m = 100 \<and> ratingScore 5 = 100
        \<and> calculateProductionEffectiveness m 5 = 100)"
proof (intro conjI allI impI)
  fix a a' :: real
  assume "a \<le> a'"
  then have "ratingScore a \<le> ratingScore a'" by (simp add: ratingScore_def)
  then show "calculateProductionEffectiveness m a \<le> calculateProductionEffectiveness m a'"
    unfolding calculateProductionEffectiveness_def by (intro toFixed2_mono) simp
next
  assume h: "budget m = 100 \<and> revenue m = 1000000000"
  show roi: "roiScore m = 100" using h by (simp add: roiScore_def)
  show rev: "revenueScore m = 100" using h by (intro revenueScore_sat) simp
  show rat: "ratingScore 5 = 100" by (simp add: ratingScore_def)
  show "calculateProductionEffectiveness m 5 = 100"
    by (simp add: calculateProductionEffectiveness_def roi rev rat toFixed2_def)
qed

theorem calculateProductionEffectiveness_mono_witness:
  "calculateProductionEffectiveness exampleMovie 3 \<le> calculateProductionEffectiveness exampleMovie 4
   \<and> budget exampleMovie = 100 \<and> revenue exampleMovie = 1000000000
   \<and> roiScore exampleMovie = 100 \<and> revenueScore exampleMovie = 100 \<and> ratingScore 5 = 100
   \<and> calculateProductionEffectiveness exampleMovie 5 = 100"
proof -
  have h: "budget exampleMovie = 100 \<and> revenue exampleMovie = 1000000000"
    by (simp add: exampleMovie_def)
  show ?thesis
    using calculateProductionEffectiveness_mono[of exampleMovie] h by auto
qed

text \<open>
  Claim C1 says that some movie with revenue above \<open>10^9\<close> (budget and revenue positive)
  has a revenue score above 100. The source takes \<^verbatim>\<open>Math.min(100, ...)\<close>, so no movie
  has.
\<close>

theorem revenueScore_unclamped_counterexample:
  "\<not> (\<exists>m. 10 ^ 9 < revenue m \<and> 0 < budget m \<and> 100 < revenueScore m)"
  using revenueScore_le by (auto simp add: not_less)


text \<open>
  Claim C1, amended. For every movie the revenue score is at most 100, it is exactly 100
  from a revenue of \<open>10^9\<close> on, and with an average rating of at most 5 the final score
  is at most 100.
\<close>

theorem revenueScore_clamped:
  "revenueScore m \<le> 100
   \<and> (10 ^ 9 \<le> revenue m \<longrightarrow> revenueScore m = 100)
   \<and> (a \<le> 5 \<longrightarrow> calculateProductionEffectiveness m a \<le> 100)"
proof (intro conjI impI)
  show "revenueScore m \<le> 100" by (rule revenueScore_le)
  show "10 ^ 9 \<le> revenue m \<Longrightarrow> revenueScore m = 100" by (rule revenueScore_sat)
  assume "a \<le> 5"
  then have "ratingScore a \<le> 100" by (simp add: ratingScore_def)
  then have "ratingScore a * (4 / 10) + roiScore m * (35 / 100) + revenueScore m * (25 / 100) \<le> 100"
    using roiScore_range[of m] revenueScore_le[of m] by linarith
  then have "calculateProductionEffectiveness m a \<le> toFixed2 100"
    unfolding calculateProductionEffectiveness_def by (rule toFixed2_mono)
  then show "calculateProductionEffectiveness m a \<le> 100" by (simp add: toFixed2_def)
qed

theorem revenueScore_clamped_witness:
  "10 ^ 9 \<le> revenue blockbusterMovie \<and> revenueScore blockbusterMovie = 100
   \<and> (5::real) \<le> 5 \<and> calculateProductionEffectiveness blockbusterMovie 5 \<le> 100"
proof -
  have h: "10 ^ 9 \<le> revenue blockbusterMovie" by (simp add: blockbusterMovie_def)
  show ?thesis using revenueScore_clamped[of blockbusterMovie 5] h by simp
qed

subsection \<open>Selection of the batch\<close>

lemma stats_count_pos:
  "(case getAverageRatingForMovie db (movieId m) of None \<Rightarrow> False | Some st \<Rightarrow> stats_count st > 0)
     = (\<exists>r \<in> set (ratings db). rating_movieId r = movieId m)"
  by (auto simp add: getAverageRatingForMovie_def Let_def filter_empty_conv)

lemma selectLoop_step:
  "selectLoop db limit (m # ms) acc =
     (if geNumber (real (length acc)) limit then acc
      else if \<exists>r \<in> set (ratings db). rating_movieId r = movieId m
        then selectLoop db limit ms (acc @ [m])
      else selectLoop db limit ms acc)"
  using stats_count_pos[of db m] by (auto split: option.splits)

lemma selectLoop_Num:
  "selectLoop db (Num x) ms acc =
     acc @ take (nat \<lceil>x\<rceil> - length acc)
             (filter (\<lambda>m. \<exists>r \<in> set (ratings db). rating_movieId r = movieId m) ms)"
proof (induction ms arbitrary: acc)
  case Nil
  then show ?case by simp
next
  case (Cons m ms)
  show ?case
  proof (cases "real (length acc) \<ge> x")
    case True
    then have "\<lceil>x\<rceil> \<le> int (length acc)" by (simp add: ceiling_le_iff)
    then have "nat \<lceil>x\<rceil> - length acc = 0" by linarith
    with True show ?thesis by (simp add: selectLoop_step del: selectLoop.simps)
  next
    case False
    then have "int (length acc) < \<lceil>x\<rceil>" by (simp add: less_ceiling_iff)
    then have lt: "length acc < nat \<lceil>x\<rceil>" by linarith
    then obtain k where k: "nat \<lceil>x\<rceil> - length acc = Suc k" by (metis Suc_diff_Suc)
    show ?thesis
    proof (cases "\<exists>r \<in> set (ratings db). rating_movieId r = movieId m")
      case True
      then have "selectLoop db (Num x) (m # ms) acc = selectLoop db (Num x) ms (acc @ [m])"
        using False by (simp add: selectLoop_step del: selectLoop.simps)
      also have "\<dots> = (acc @ [m]) @ take (nat \<lceil>x\<rceil> - length (acc @ [m]))
          (filter (\<lambda>m. \<exists>r \<in> set (ratings db). rating_movieId r = movieId m) ms)"
        by (rule Cons.IH)
      also have "nat \<lceil>x\<rceil> - length (acc @ [m]) = k" using k by simp
      finally show ?thesis using True k by simp
    next
      case no: False
      then have "selectLoop db (Num x) (m # ms) acc = selectLoop db (Num x) ms acc"
        using False by (simp add: selectLoop_step del: selectLoop.simps)
      then show ?thesis using no Cons.IH[of acc] by simp
    qed
  qed
qed

lemma selectLoop_NaN:
  "selectLoop db NaN ms acc =
     acc @ filter (\<lambda>m. \<exists>r \<in> set (ratings db). rating_movieId r = movieId m) ms"
proof (induction ms arbitrary: acc)
  case Nil
  then show ?case by simp
next
  case (Cons m ms)
  show ?case
    using Cons.IH[of acc] Cons.IH[of "acc @ [m]"]
    by (simp add: selectLoop_step del: selectLoop.simps)
qed

lemma selectMoviesWithRatings_Num:
  "selectMoviesWithRatings db (Num x) =
     take (nat \<lceil>x\<rceil>)
       (filter (\<lambda>m. \<exists>r \<in> set (ratings db). rating_movieId r = movieId m) (movies db))"
  by (simp add: selectMoviesWithRatings_def getMovies_def selectLoop_Num)

lemma selectMoviesWithRatings_NaN:
  "selectMoviesWithRatings db NaN =
     filter (\<lambda>m. \<exists>r \<in> set (ratings db). rating_movieId r = movieId m) (movies db)"
  by (simp add: selectMoviesWithRatings_def getMovies_def selectLoop_NaN)

lemma selectMoviesWithRatings_prefix:
  "\<exists>k. selectMoviesWithRatings db limit =
     take k (filter (\<lambda>m. \<exists>r \<in> set (ratings db). rating_movieId r = movieId m) (movies db))"
proof (cases limit)
  case (Num x)
  then show ?thesis using selectMoviesWithRatings_Num by blast
next
  case NaN
  let ?rated = "filter (\<lambda>m. \<exists>r \<in> set (ratings db). rating_movieId r = movieId m) (movies db)"
  have "selectMoviesWithRatings db limit = take (length ?rated) ?rated"
    using NaN by (simp add: selectMoviesWithRatings_NaN)
  then show ?thesis by blast
qed




subsection \<open>Reading the oracle's reply\<close>

lemma getProp_not_null: "parsed \<noteq> JNull \<Longrightarrow> \<exists>v. getProp parsed k = Inr v"
  by (cases parsed) simp_all

lemma getProp_Inl: "getProp parsed k = Inl err \<longleftrightarrow> parsed = JNull \<and> err = TypeError"
  by (cases parsed) auto

lemma parseLLMEnrichments_unparseable:
  "JSON_parse e c = None \<Longrightarrow> parseLLMEnrichments e c = defaultEnrichments"
  by (simp add: parseLLMEnrichments_def)

lemma parseLLMEnrichments_null:
  "JSON_parse e c = Some JNull \<Longrightarrow> parseLLMEnrichments e c = defaultEnrichments"
  by (simp add: parseLLMEnrichments_def)

lemma parseLLMEnrichments_fields:
  assumes "JSON_parse e c = Some parsed" "parsed \<noteq> JNull"
  shows "parseLLMEnrichments e c =
           \<lparr> llm_awardPotential =
               orDefault (projr (getProp parsed ''awardPotential'')) (JStr ''Medium''),
             llm_popularityQualityIndex =
               orDefault (projr (getProp parsed ''popularityQualityIndex'')) (JNum 50),
             llm_emotionalGenres =
               orDefault (projr (getProp parsed ''emotionalGenres'')) (JStr ''emotional'') \<rparr>"
proof -
  obtain a p g where "getProp parsed ''awardPotential'' = Inr a"
    "getProp parsed ''popularityQualityIndex'' = Inr p"
    "getProp parsed ''emotionalGenres'' = Inr g"
    using getProp_not_null[OF assms(2)] by blast
  then show ?thesis using assms(1) by (simp add: parseLLMEnrichments_def)
qed

lemma getProp_Inr_not_null: "getProp parsed k = Inr v \<Longrightarrow> parsed \<noteq> JNull"
  by auto

lemma orDefault_simps:
  "orDefault None d = d"
  "\<not> truthy v \<Longrightarrow> orDefault (Some v) d = d"
  "truthy v \<Longrightarrow> orDefault (Some v) d = v"
  by (simp_all add: orDefault_def)

lemma orDefault_truthy: "truthy d \<Longrightarrow> truthy (orDefault v d)"
  by (simp add: orDefault_def split: option.splits)

lemma parseLLMEnrichments_truthy:
  "truthy (llm_awardPotential (parseLLMEnrichments e c))
   \<and> truthy (llm_popularityQualityIndex (parseLLMEnrichments e c))
   \<and> truthy (llm_emotionalGenres (parseLLMEnrichments e c))"
proof (cases "JSON_parse e c")
  case None
  then show ?thesis
    by (simp add: parseLLMEnrichments_unparseable defaultEnrichments_def)
next
  case (Some parsed)
  show ?thesis
  proof (cases "parsed = JNull")
    case True
    with Some show ?thesis by (simp add: parseLLMEnrichments_null defaultEnrichments_def)
  next
    case False
    show ?thesis
      unfolding parseLLMEnrichments_fields[OF Some False] by (simp add: orDefault_truthy)
  qed
qed

text \<open>
  Claim C7. Whatever text the oracle returned: if it does not parse as JSON (or parses to
  \<^verbatim>\<open>null\<close>), all three attributes are the fixed defaults \<open>Medium\<close>, \<open>50\<close>,
  \<open>emotional\<close>; if it parses and one of the keys \<open>awardPotential\<close>,
  \<open>popularityQualityIndex\<close>, \<open>emotionalGenres\<close> is missing, that attribute is its
  default; and once the oracle has replied, \<open>getLLMEnrichments\<close> returns a result, never
  an error.
\<close>

theorem getLLMEnrichments_defaults:
  "(JSON_parse e c = None \<or> JSON_parse e c = Some JNull
      \<longrightarrow> parseLLMEnrichments e c = defaultEnrichments)
   \<and> defaultEnrichments =
       \<lparr> llm_awardPotential = JStr ''Medium'', llm_popularityQualityIndex = JNum 50,
         llm_emotionalGenres = JStr ''emotional'' \<rparr>
   \<and> (JSON_parse e c = Some parsed \<and> getProp parsed ''awardPotential'' = Inr None
      \<longrightarrow> llm_awardPotential (parseLLMEnrichments e c) = JStr ''Medium'')
   \<and> (JSON_parse e c = Some parsed \<and> getProp parsed ''popularityQualityIndex'' = Inr None
      \<longrightarrow> llm_popularityQualityIndex (parseLLMEnrichments e c) = JNum 50)
   \<and> (JSON_parse e c = Some parsed \<and> getProp parsed ''emotionalGenres'' = Inr None
      \<longrightarrow> llm_emotionalGenres (parseLLMEnrichments e c) = JStr ''emotional'')
   \<and> (complete e i (EnrichmentPrompt (input_movie input) (input_avgRating input)
                       (input_ratingCount input)) = Inr content
      \<longrightarrow> getLLMEnrichments e i input = Inr (parseLLMEnrichments e (trimmedOr content ''{}'')))"
proof (intro conjI impI)
  assume "JSON_parse e c = None \<or> JSON_parse e c = Some JNull"
  then show "parseLLMEnrichments e c = defaultEnrichments"
    using parseLLMEnrichments_unparseable parseLLMEnrichments_null by blast
next
  show "defaultEnrichments =
       \<lparr> llm_awardPotential = JStr ''Medium'', llm_popularityQualityIndex = JNum 50,
         llm_emotionalGenres = JStr ''emotional'' \<rparr>"
    by (simp add: defaultEnrichments_def)
next
  assume h: "JSON_parse e c = Some parsed \<and> getProp parsed ''awardPotential'' = Inr None"
  then have n: "parsed \<noteq> JNull" using getProp_Inr_not_null by blast
  show "llm_awardPotential (parseLLMEnrichments e c) = JStr ''Medium''"
    using h by (simp add: parseLLMEnrichments_fields[OF _ n] orDefault_simps)
next
  assume h: "JSON_parse e c = Some parsed \<and> getProp parsed ''popularityQualityIndex'' = Inr None"
  then have n: "parsed \<noteq> JNull" using getProp_Inr_not_null by blast
  show "llm_popularityQualityIndex (parseLLMEnrichments e c) = JNum 50"
    using h by (simp add: parseLLMEnrichments_fields[OF _ n] orDefault_simps)
next
  assume h: "JSON_parse e c = Some parsed \<and> getProp parsed ''emotionalGenres'' = Inr None"
  then have n: "parsed \<noteq> JNull" using getProp_Inr_not_null by blast
  show "llm_emotionalGenres (parseLLMEnrichments e c) = JStr ''emotional''"
    using h by (simp add: parseLLMEnrichments_fields[OF _ n] orDefault_simps)
next
  assume "complete e i (EnrichmentPrompt (input_movie input) (input_avgRating input)
                       (input_ratingCount input)) = Inr content"
  then show "getLLMEnrichments e i input = Inr (parseLLMEnrichments e (trimmedOr content ''{}''))"
    by (simp add: getLLMEnrichments_def)
qed

lemma enrichSingleMovie_Inr:
  assumes "enrichSingleMovie e i db movie = Inr enrichment"
  shows "\<exists>c. awardPotential enrichment = llm_awardPotential (parseLLMEnrichments e c)
           \<and> popularityQualityIndex enrichment = llm_popularityQualityIndex (parseLLMEnrichments e c)
           \<and> emotionalGenres enrichment = llm_emotionalGenres (parseLLMEnrichments e c)"
    and "enrichment_movieId enrichment = movieId movie"
  using assms
  by (auto simp add: enrichSingleMovie_def getLLMEnrichments_def Let_def split: sum.splits)

subsection \<open>Rolling ROI\<close>

lemma insertBy_localeCompare:
  "insertBy (\<lambda>a b. localeCompare (f a) (f b)) x ys = insort_key f x ys"
  by (induction ys) (auto simp add: localeCompare_def)

lemma sortBy_localeCompare:
  "sortBy (\<lambda>a b. localeCompare (f a) (f b)) xs = sort_key f xs"
  by (induction xs) (simp_all add: sortBy_def insertBy_localeCompare)

lemma someNameIs_null: "someNameIs p (JNull # cs) = Inl TypeError"
  by simp

lemma someNameIs_step:
  "c \<noteq> JNull \<Longrightarrow>
     someNameIs p (c # cs) = (if namesCompany p c then Inr True else someNameIs p cs)"
  using getProp_not_null[of c "''name''"] by (auto simp add: namesCompany_def)

lemma namesCompany_null: "\<not> namesCompany p JNull"
  by (simp add: namesCompany_def)

lemma someNameIs_iff:
  "someNameIs p cs = Inr True \<longleftrightarrow>
     (\<exists>k < length cs. namesCompany p (cs ! k) \<and> JNull \<notin> set (take k cs))"
proof (induction cs)
  case Nil
  then show ?case by simp
next
  case (Cons c cs)
  show ?case
  proof (cases "c = JNull")
    case True
    have "\<not> (\<exists>k < length (c # cs). namesCompany p ((c # cs) ! k) \<and> JNull \<notin> set (take k (c # cs)))"
    proof
      assume "\<exists>k < length (c # cs). namesCompany p ((c # cs) ! k) \<and> JNull \<notin> set (take k (c # cs))"
      then obtain k where k: "namesCompany p ((c # cs) ! k)" "JNull \<notin> set (take k (c # cs))"
        by blast
      show False
      proof (cases k)
        case 0
        then show ?thesis using k(1) True namesCompany_null by simp
      next
        case (Suc j)
        then show ?thesis using k(2) True by simp
      qed
    qed
    then show ?thesis using True by (simp only: someNameIs_null) simp
  next
    case False
    show ?thesis
    proof (cases "namesCompany p c")
      case True
      then have "namesCompany p ((c # cs) ! 0) \<and> JNull \<notin> set (take 0 (c # cs))" by simp
      then have "\<exists>k < length (c # cs). namesCompany p ((c # cs) ! k) \<and> JNull \<notin> set (take k (c # cs))"
        by (intro exI[of _ 0]) simp
      then show ?thesis using True by (simp only: someNameIs_step[OF False]) simp
    next
      case no: False
      have "(\<exists>k < length (c # cs). namesCompany p ((c # cs) ! k) \<and> JNull \<notin> set (take k (c # cs)))
          \<longleftrightarrow> (\<exists>j < length cs. namesCompany p (cs ! j) \<and> JNull \<notin> set (take j cs))"
      proof
        assume "\<exists>k < length (c # cs). namesCompany p ((c # cs) ! k) \<and> JNull \<notin> set (take k (c # cs))"
        then obtain k where k: "k < length (c # cs)" "namesCompany p ((c # cs) ! k)"
          "JNull \<notin> set (take k (c # cs))" by blast
        then obtain j where j: "k = Suc j" using no by (cases k) auto
        then have "j < length cs \<and> namesCompany p (cs ! j) \<and> JNull \<notin> set (take j cs)"
          using k by simp
        then show "\<exists>j < length cs. namesCompany p (cs ! j) \<and> JNull \<notin> set (take j cs)" by blast
      next
        assume "\<exists>j < length cs. namesCompany p (cs ! j) \<and> JNull \<notin> set (take j cs)"
        then obtain j where j: "j < length cs" "namesCompany p (cs ! j)" "JNull \<notin> set (take j cs)"
          by blast
        then have "Suc j < length (c # cs) \<and> namesCompany p ((c # cs) ! Suc j)
            \<and> JNull \<notin> set (take (Suc j) (c # cs))"
          using False by simp
        then show "\<exists>k < length (c # cs). namesCompany p ((c # cs) ! k)
            \<and> JNull \<notin> set (take k (c # cs))" by blast
      qed
      then show ?thesis using no Cons.IH by (simp only: someNameIs_step[OF False]) simp
    qed
  qed
qed

lemma isCompanyMovie_iff: "isCompanyMovie e p m = listsCompany e p m"
proof -
  have "(case someNameIs p cs of Inl err \<Rightarrow> False | Inr b \<Rightarrow> b)
      = (\<exists>k < length cs. namesCompany p (cs ! k) \<and> JNull \<notin> set (take k cs))" for cs
  proof -
    have "(case someNameIs p cs of Inl err \<Rightarrow> False | Inr b \<Rightarrow> b)
        = (someNameIs p cs = Inr True)"
      by (cases "someNameIs p cs") auto
    then show ?thesis by (simp only: someNameIs_iff)
  qed
  then show ?thesis
    by (simp add: isCompanyMovie_def listsCompany_def split: option.splits json.splits)
qed

lemma namesCompany_iff:
  "namesCompany p c \<longleftrightarrow> (\<exists>n. getProp c ''name'' = Inr (Some n) \<and> strictEq n p)"
  by (auto simp add: namesCompany_def split: sum.splits option.splits)

lemma listsCompany_iff:
  "listsCompany e p m \<longleftrightarrow>
     (\<exists>cs. JSON_parse e (if productionCompanies m = [] then ''[]'' else productionCompanies m)
             = Some (JArr cs)
           \<and> (\<exists>k < length cs.
                 (\<exists>n. getProp (cs ! k) ''name'' = Inr (Some n) \<and> strictEq n p)
                 \<and> JNull \<notin> set (take k cs)))"
  by (auto simp add: listsCompany_def namesCompany_iff split: option.splits json.splits)

lemma companyMovies_sort:
  "companyMovies e db movie p = sort_key releaseDate (priorCompanyMovies e db movie p)"
proof -
  have "isCompanyMovie e p = listsCompany e p" using isCompanyMovie_iff by blast
  then show ?thesis
    by (simp add: companyMovies_def priorCompanyMovies_def sortBy_localeCompare getMovies_def
        isEarlier_def conj_commute)
qed

lemma roiLoop_eq:
  "roiLoop ms (t, c) =
     (t + sum_list (map roiPercent (filter validFinancials ms)),
      c + length (filter validFinancials ms))"
  by (induction ms arbitrary: t c) (simp_all add: roiPercent_def validFinancials_def)

lemma trim_Nil: "trim [] = []"
  by (simp add: trim_def)

lemma calculateCompanyROI_eq:
  "calculateCompanyROI e db movie =
     (case declaredCompanies e movie of
        None \<Rightarrow> None
      | Some companies \<Rightarrow>
          (case companies of
             [] \<Rightarrow> None
           | primaryCompany # others \<Rightarrow>
               (let valid = filter validFinancials (trailingWindow e db movie primaryCompany)
                in if valid = [] then None
                   else Some (sum_list (map roiPercent valid) / real (length valid)))))"
  by (auto simp add: calculateCompanyROI_def declaredCompanies_def trailingWindow_def
      roiLoop_eq Let_def filter_empty_conv trim_Nil split: sum.splits list.splits)

lemma trailingWindow_recent:
  "\<exists>older. mset (older @ trailingWindow e db movie p) = mset (priorCompanyMovies e db movie p)
     \<and> sorted (map releaseDate (older @ trailingWindow e db movie p))"
proof -
  let ?s = "sort_key releaseDate (priorCompanyMovies e db movie p)"
  let ?k = "length ?s - 10"
  have "take ?k ?s @ trailingWindow e db movie p = ?s"
    by (simp add: trailingWindow_def sliceLast10_def companyMovies_sort)
  then show ?thesis
    by (metis mset_sort sorted_sort_key)
qed

lemma trailingWindow_length:
  "length (trailingWindow e db movie p) = min 10 (length (priorCompanyMovies e db movie p))"
  by (simp add: trailingWindow_def sliceLast10_def companyMovies_sort)

lemma trailingWindow_single:
  "priorCompanyMovies e db movie p = [m] \<Longrightarrow> trailingWindow e db movie p = [m]"
  by (simp add: trailingWindow_def sliceLast10_def companyMovies_sort)

lemma trailingWindow_empty:
  "priorCompanyMovies e db movie p = [] \<Longrightarrow> trailingWindow e db movie p = []"
  by (simp add: trailingWindow_def sliceLast10_def companyMovies_sort)

lemma mapNames_Inr:
  "JNull \<notin> set cs \<Longrightarrow>
     mapNames cs = Inr (map (\<lambda>c. orDefault (projr (getProp c ''name'')) (JStr [])) cs)"
proof (induction cs)
  case Nil
  then show ?case by simp
next
  case (Cons c cs)
  then have "c \<noteq> JNull" by auto
  then obtain v where "getProp c ''name'' = Inr v" using getProp_not_null by blast
  then show ?case using Cons by (simp add: companyNameOf_def)
qed

lemma mapNames_Inl: "JNull \<in> set cs \<Longrightarrow> isl (mapNames cs)"
proof (induction cs)
  case Nil
  then show ?case by simp
next
  case (Cons c cs)
  show ?case
  proof (cases "c = JNull")
    case True
    then show ?thesis by (simp add: companyNameOf_def)
  next
    case False
    then obtain v where "getProp c ''name'' = Inr v" using getProp_not_null by blast
    moreover have "isl (mapNames cs)" using Cons False by auto
    ultimately show ?thesis by (auto simp add: companyNameOf_def isl_def)
  qed
qed

lemma declaredCompanies_Some_iff:
  "declaredCompanies e movie = Some names \<longleftrightarrow>
     trim (productionCompanies movie) \<noteq> []
     \<and> (\<exists>cs. JSON_parse e (productionCompanies movie) = Some (JArr cs) \<and> JNull \<notin> set cs
            \<and> names = filter (\<lambda>n. n \<noteq> JStr [])
                         (map (\<lambda>c. orDefault (projr (getProp c ''name'')) (JStr [])) cs))"
proof (cases "JSON_parse e (productionCompanies movie)")
  case None
  then show ?thesis by (simp add: declaredCompanies_def parseCompanies_def)
next
  case (Some parsed)
  show ?thesis
  proof (cases parsed)
    case (JArr cs)
    show ?thesis
    proof (cases "JNull \<in> set cs")
      case True
      then obtain err where "mapNames cs = Inl err" using mapNames_Inl by (auto simp add: isl_def)
      then show ?thesis using Some JArr True
        by (simp add: declaredCompanies_def parseCompanies_def)
    next
      case False
      then show ?thesis using Some JArr mapNames_Inr[OF False]
        by (auto simp add: declaredCompanies_def parseCompanies_def)
    qed
  qed (simp_all add: Some declaredCompanies_def parseCompanies_def)
qed

text \<open>
  Claim C2. \<open>calculateCompanyROI\<close> is \<^verbatim>\<open>null\<close> exactly when the movie declares no
  parseable company list (the field is blank, or does not parse to an array without
  \<^verbatim>\<open>null\<close> entries), the parsed list of company names (the non-empty \<^verbatim>\<open>name\<close>s of
  the array's entries) is empty, or no movie of the trailing window has positive budget
  and positive revenue; otherwise it is the arithmetic
  mean of \<open>((revenue - budget) / budget) * 100\<close> over the window's movies with positive
  budget and revenue. The window holds the \<open>min 10 n\<close> latest, by release date, of the
  \<open>n\<close> catalogue movies that list the primary company (the first non-empty name of
  the parsed list) and were released strictly before the target. A movie lists the
  company, for the filter of the code as for the window, exactly when its own company
  field (\<^verbatim>\<open>'[]'\<close> when empty) parses to an array that has an entry whose \<^verbatim>\<open>name\<close>
  is \<^verbatim>\<open>===\<close> the primary company with no \<^verbatim>\<open>null\<close> entry before it. When the one movie of
  the window with positive budget and revenue has budget 100 and revenue 150 (in
  particular when it is the only earlier movie of the company) the result is 50; with no
  earlier movie of the company it is \<^verbatim>\<open>null\<close>.
\<close>

theorem calculateCompanyROI_rolling:
  "calculateCompanyROI e db movie =
     (case declaredCompanies e movie of
        None \<Rightarrow> None
      | Some companies \<Rightarrow>
          (case companies of
             [] \<Rightarrow> None
           | primaryCompany # others \<Rightarrow>
               (let valid = filter validFinancials (trailingWindow e db movie primaryCompany)
                in if valid = [] then None
                   else Some (sum_list (map roiPercent valid) / real (length valid)))))
   \<and> (calculateCompanyROI e db movie = None \<longleftrightarrow>
        declaredCompanies e movie = None \<or> declaredCompanies e movie = Some []
        \<or> (\<exists>primaryCompany others.
              declaredCompanies e movie = Some (primaryCompany # others)
              \<and> \<not> (\<exists>m \<in> set (trailingWindow e db movie primaryCompany).
                      budget m > 0 \<and> revenue m > 0)))
   \<and> (\<forall>names. declaredCompanies e movie = Some names \<longleftrightarrow>
          trim (productionCompanies movie) \<noteq> []
          \<and> (\<exists>cs. JSON_parse e (productionCompanies movie) = Some (JArr cs) \<and> JNull \<notin> set cs
                 \<and> names = filter (\<lambda>n. n \<noteq> JStr [])
                     (map (\<lambda>c. orDefault (projr (getProp c ''name'')) (JStr [])) cs)))
   \<and> (\<forall>p. length (trailingWindow e db movie p) = min 10 (length (priorCompanyMovies e db movie p))
          \<and> (\<exists>older. mset (older @ trailingWindow e db movie p)
                         = mset (priorCompanyMovies e db movie p)
                     \<and> sorted (map releaseDate (older @ trailingWindow e db movie p))))
   \<and> (\<forall>p m. isCompanyMovie e p m \<longleftrightarrow>
          (\<exists>cs. JSON_parse e (if productionCompanies m = [] then ''[]''
                               else productionCompanies m) = Some (JArr cs)
               \<and> (\<exists>k < length cs.
                     (\<exists>n. getProp (cs ! k) ''name'' = Inr (Some n) \<and> strictEq n p)
                     \<and> JNull \<notin> set (take k cs))))
   \<and> (\<forall>p m. m \<in> set (priorCompanyMovies e db movie p) \<longleftrightarrow>
          m \<in> set (movies db) \<and> releaseDate m \<noteq> [] \<and> releaseDate m < releaseDate movie
          \<and> (\<exists>cs. JSON_parse e (if productionCompanies m = [] then ''[]''
                               else productionCompanies m) = Some (JArr cs)
               \<and> (\<exists>k < length cs.
                     (\<exists>n. getProp (cs ! k) ''name'' = Inr (Some n) \<and> strictEq n p)
                     \<and> JNull \<notin> set (take k cs))))
   \<and> (\<forall>p others m. declaredCompanies e movie = Some (p # others)
          \<and> filter validFinancials (trailingWindow e db movie p) = [m]
          \<and> budget m = 100 \<and> revenue m = 150
        \<longrightarrow> calculateCompanyROI e db movie = Some 50)
   \<and> (\<forall>p others m. declaredCompanies e movie = Some (p # others)
          \<and> priorCompanyMovies e db movie p = [m] \<and> budget m = 100 \<and> revenue m = 150
        \<longrightarrow> calculateCompanyROI e db movie = Some 50)
   \<and> (\<forall>p others. declaredCompanies e movie = Some (p # others)
          \<and> priorCompanyMovies e db movie p = []
        \<longrightarrow> calculateCompanyROI e db movie = None)"
proof (intro conjI allI impI)
  show "calculateCompanyROI e db movie =
     (case declaredCompanies e movie of
        None \<Rightarrow> None
      | Some companies \<Rightarrow>
          (case companies of
             [] \<Rightarrow> None
           | primaryCompany # others \<Rightarrow>
               (let valid = filter validFinancials (trailingWindow e db movie primaryCompany)
                in if valid = [] then None
                   else Some (sum_list (map roiPercent valid) / real (length valid)))))"
    by (rule calculateCompanyROI_eq)
next
  show "calculateCompanyROI e db movie = None \<longleftrightarrow>
        declaredCompanies e movie = None \<or> declaredCompanies e movie = Some []
        \<or> (\<exists>primaryCompany others.
              declaredCompanies e movie = Some (primaryCompany # others)
              \<and> \<not> (\<exists>m \<in> set (trailingWindow e db movie primaryCompany).
                      budget m > 0 \<and> revenue m > 0))"
    unfolding calculateCompanyROI_eq
    by (auto simp add: Let_def filter_empty_conv validFinancials_def
        split: option.splits list.splits)
next
  fix names
  show "declaredCompanies e movie = Some names \<longleftrightarrow>
          trim (productionCompanies movie) \<noteq> []
          \<and> (\<exists>cs. JSON_parse e (productionCompanies movie) = Some (JArr cs) \<and> JNull \<notin> set cs
                 \<and> names = filter (\<lambda>n. n \<noteq> JStr [])
                     (map (\<lambda>c. orDefault (projr (getProp c ''name'')) (JStr [])) cs))"
    by (rule declaredCompanies_Some_iff)
next
  fix p
  show "length (trailingWindow e db movie p) = min 10 (length (priorCompanyMovies e db movie p))"
    by (rule trailingWindow_length)
  show "\<exists>older. mset (older @ trailingWindow e db movie p) = mset (priorCompanyMovies e db movie p)
     \<and> sorted (map releaseDate (older @ trailingWindow e db movie p))"
    by (rule trailingWindow_recent)
next
  fix p m
  show "isCompanyMovie e p m \<longleftrightarrow>
          (\<exists>cs. JSON_parse e (if productionCompanies m = [] then ''[]''
                               else productionCompanies m) = Some (JArr cs)
               \<and> (\<exists>k < length cs.
                     (\<exists>n. getProp (cs ! k) ''name'' = Inr (Some n) \<and> strictEq n p)
                     \<and> JNull \<notin> set (take k cs)))"
    unfolding isCompanyMovie_iff by (rule listsCompany_iff)
next
  fix p m
  have "m \<in> set (priorCompanyMovies e db movie p) \<longleftrightarrow>
          m \<in> set (movies db) \<and> releaseDate m \<noteq> [] \<and> releaseDate m < releaseDate movie
          \<and> listsCompany e p m"
    by (auto simp add: priorCompanyMovies_def)
  then show "m \<in> set (priorCompanyMovies e db movie p) \<longleftrightarrow>
          m \<in> set (movies db) \<and> releaseDate m \<noteq> [] \<and> releaseDate m < releaseDate movie
          \<and> (\<exists>cs. JSON_parse e (if productionCompanies m = [] then ''[]''
                               else productionCompanies m) = Some (JArr cs)
               \<and> (\<exists>k < length cs.
                     (\<exists>n. getProp (cs ! k) ''name'' = Inr (Some n) \<and> strictEq n p)
                     \<and> JNull \<notin> set (take k cs)))"
    by (simp only: listsCompany_iff)
next
  fix p others m
  assume h: "declaredCompanies e movie = Some (p # others)
          \<and> filter validFinancials (trailingWindow e db movie p) = [m]
          \<and> budget m = 100 \<and> revenue m = 150"
  then show "calculateCompanyROI e db movie = Some 50"
    by (simp add: calculateCompanyROI_eq roiPercent_def)
next
  fix p others m
  assume h: "declaredCompanies e movie = Some (p # others)
          \<and> priorCompanyMovies e db movie p = [m] \<and> budget m = 100 \<and> revenue m = 150"
  then have "trailingWindow e db movie p = [m]" by (simp add: trailingWindow_single)
  then show "calculateCompanyROI e db movie = Some 50"
    using h by (simp add: calculateCompanyROI_eq validFinancials_def roiPercent_def)
next
  fix p others
  assume h: "declaredCompanies e movie = Some (p # others)
          \<and> priorCompanyMovies e db movie p = []"
  then have "trailingWindow e db movie p = []" by (simp add: trailingWindow_empty)
  then show "calculateCompanyROI e db movie = None"
    using h by (simp add: calculateCompanyROI_eq)
qed

subsection \<open>The batch loop\<close>

lemma companyMovies_table:
  "companyMovies e (db\<lparr>movie_enrichments := t\<rparr>) m p = companyMovies e db m p"
  by (simp add: companyMovies_def getMovies_def)

lemma calculateCompanyROI_table:
  "calculateCompanyROI e (db\<lparr>movie_enrichments := t\<rparr>) m = calculateCompanyROI e db m"
  by (simp add: calculateCompanyROI_def companyMovies_table split: sum.splits list.splits)

lemma getAverageRatingForMovie_table:
  "getAverageRatingForMovie (db\<lparr>movie_enrichments := t\<rparr>) k = getAverageRatingForMovie db k"
  by (simp add: getAverageRatingForMovie_def)

lemma enrichSingleMovie_table:
  "enrichSingleMovie e i (db\<lparr>movie_enrichments := t\<rparr>) m = enrichSingleMovie e i db m"
  by (simp add: enrichSingleMovie_def getAverageRatingForMovie_table calculateCompanyROI_table)

lemma processItem_table:
  "processItem e i (db\<lparr>movie_enrichments := t\<rparr>) m =
     (case enrichSingleMovie e i db m of
        Inl err \<Rightarrow> Inl err
      | Inr en \<Rightarrow>
          if writeFault e i then Inl StorageError
          else Inr (en, db\<lparr>movie_enrichments := t(enrichment_movieId en \<mapsto> storedRow e en)\<rparr>))"
  by (simp add: processItem_def enrichSingleMovie_table saveEnrichment_def split: sum.splits)

lemma storedRow_movieId: "enrichment_movieId (storedRow e en) = enrichment_movieId en"
  by (simp add: storedRow_def)

lemma storedRow_metrics:
  "productionCompanyRollingROI (storedRow e en) = productionCompanyRollingROI en"
  "productionEffectivenessScore (storedRow e en) = productionEffectivenessScore en"
  by (simp_all add: storedRow_def)

lemma storedRow_declared: "hasDeclaredTypes en \<Longrightarrow> storedRow e en = en"
  by (auto simp add: hasDeclaredTypes_def storedRow_def split: json.splits)

lemma itemResult_eq:
  "itemResult e db (i, m) =
     (case enrichSingleMovie e i db m of
        Inl err \<Rightarrow> None
      | Inr en \<Rightarrow> if writeFault e i then None else Some en)"
  by (simp add: itemResult_def processItem_def saveEnrichment_def split: sum.splits)

lemma enrichLoop_eq:
  "enrichLoop e i ms (acc, db\<lparr>movie_enrichments := t\<rparr>) =
     (acc @ List.map_filter (itemResult e db) (enumerate i ms),
      db\<lparr>movie_enrichments :=
           upsertAll t (map (storedRow e)
                          (List.map_filter (itemResult e db) (enumerate i ms)))\<rparr>)"
proof (induction ms arbitrary: i acc t)
  case Nil
  then show ?case by (simp add: upsertAll_def)
next
  case (Cons m ms)
  let ?rest = "List.map_filter (itemResult e db) (enumerate (Suc i) ms)"
  show ?case
  proof (cases "itemResult e db (i, m)")
    case None
    then have "isl (processItem e i (db\<lparr>movie_enrichments := t\<rparr>) m)"
      by (auto simp add: itemResult_eq processItem_table split: sum.splits if_splits)
    then obtain err where "processItem e i (db\<lparr>movie_enrichments := t\<rparr>) m = Inl err"
      by (cases "processItem e i (db\<lparr>movie_enrichments := t\<rparr>) m") auto
    then have "enrichLoop e i (m # ms) (acc, db\<lparr>movie_enrichments := t\<rparr>)
        = enrichLoop e (Suc i) ms (acc, db\<lparr>movie_enrichments := t\<rparr>)"
      by simp
    also have "\<dots> = (acc @ ?rest,
        db\<lparr>movie_enrichments := upsertAll t (map (storedRow e) ?rest)\<rparr>)"
      by (rule Cons.IH)
    finally show ?thesis using None by simp
  next
    case (Some en)
    let ?t = "t(enrichment_movieId en \<mapsto> storedRow e en)"
    from Some have "processItem e i (db\<lparr>movie_enrichments := t\<rparr>) m
        = Inr (en, db\<lparr>movie_enrichments := ?t\<rparr>)"
      by (auto simp add: itemResult_eq processItem_table split: sum.splits if_splits)
    then have "enrichLoop e i (m # ms) (acc, db\<lparr>movie_enrichments := t\<rparr>)
        = enrichLoop e (Suc i) ms (acc @ [en], db\<lparr>movie_enrichments := ?t\<rparr>)"
      by simp
    also have "\<dots> = ((acc @ [en]) @ ?rest,
        db\<lparr>movie_enrichments := upsertAll ?t (map (storedRow e) ?rest)\<rparr>)"
      by (rule Cons.IH)
    also have "upsertAll ?t (map (storedRow e) ?rest)
        = upsertAll t (map (storedRow e) (en # ?rest))"
      by (simp only: upsertAll_def foldl_Cons list.map storedRow_movieId)
    finally show ?thesis using Some by simp
  qed
qed

lemma enrichMovies_eq:
  "enrichMovies e db n =
     (List.map_filter (itemResult e db) (enumerate 0 (selectMoviesWithRatings db n)),
      db\<lparr>movie_enrichments := upsertAll (movie_enrichments db)
           (map (storedRow e)
              (List.map_filter (itemResult e db)
                 (enumerate 0 (selectMoviesWithRatings db n))))\<rparr>)"
proof -
  have "db = db\<lparr>movie_enrichments := movie_enrichments db\<rparr>" by simp
  then have "enrichMovies e db n
      = enrichLoop e 0 (selectMoviesWithRatings db n)
          ([], db\<lparr>movie_enrichments := movie_enrichments db\<rparr>)"
    by (simp add: enrichMovies_def initializeEnrichmentTable_def Let_def)
  then show ?thesis by (simp only: enrichLoop_eq append_Nil)
qed

lemma enumerate_nth: "enumerate 0 xs = map (\<lambda>i. (i, xs ! i)) [0..<length xs]"
proof (rule nth_equalityI)
  show "length (enumerate 0 xs) = length (map (\<lambda>i. (i, xs ! i)) [0..<length xs])" by simp
next
  fix i
  assume "i < length (enumerate 0 xs)"
  then show "enumerate 0 xs ! i = map (\<lambda>i. (i, xs ! i)) [0..<length xs] ! i"
    by (simp add: nth_enumerate_eq)
qed

lemma upt_without:
  assumes "j < n"
  shows "filter (\<lambda>i. i \<noteq> j) [0..<n] = [0..<j] @ [Suc j..<n]"
proof -
  have "[0..<n] = [0..<j] @ [j] @ [Suc j..<n]"
    using assms by (metis append_Cons append_Nil le0 less_imp_le_nat upt_add_eq_append
        upt_conv_Cons le_add_diff_inverse)
  then show ?thesis by simp
qed

lemma map_filter_one_failure:
  assumes "j < length xs"
    and "f (j, xs ! j) = None"
    and "\<forall>i < length xs. i \<noteq> j \<longrightarrow> f (i, xs ! i) \<noteq> None"
  shows "List.map_filter f (enumerate 0 xs)
           = map (\<lambda>i. the (f (i, xs ! i))) ([0..<j] @ [Suc j..<length xs])"
proof -
  have "filter (\<lambda>i. f (i, xs ! i) \<noteq> None) [0..<length xs] = filter (\<lambda>i. i \<noteq> j) [0..<length xs]"
    using assms by (intro filter_cong) auto
  then show ?thesis
    using upt_without[OF assms(1)]
    by (simp add: List.map_filter_def enumerate_nth filter_map comp_def)
qed

lemma itemResult_movieId:
  assumes "itemResult e db (i, m) = Some en"
  shows "enrichment_movieId en = movieId m"
proof -
  from assms have "enrichSingleMovie e i db m = Inr en"
    by (simp add: itemResult_eq split: sum.splits if_splits)
  then show ?thesis by (rule enrichSingleMovie_Inr(2))
qed

lemma nth_take_drop_map:
  assumes "j < length xs"
  shows "map (\<lambda>i. g (xs ! i)) ([0..<j] @ [Suc j..<length xs]) = map g (take j xs @ drop (Suc j) xs)"
proof -
  have a: "map (\<lambda>i. g (xs ! i)) [0..<j] = map g (take j xs)"
    using assms by (simp add: list_eq_iff_nth_eq)
  have b: "map (\<lambda>i. g (xs ! i)) [Suc j..<length xs] = map g (drop (Suc j) xs)"
    using assms by (simp add: list_eq_iff_nth_eq)
  show ?thesis using a b by simp
qed

lemma dom_upsertAll: "dom (upsertAll t ens) = dom t \<union> enrichment_movieId ` set ens"
  unfolding upsertAll_def by (induction ens arbitrary: t) auto

lemma upsertAll_other:
  "k \<notin> enrichment_movieId ` set ens \<Longrightarrow> upsertAll t ens k = t k"
  unfolding upsertAll_def by (induction ens arbitrary: t) auto

lemma upsertAll_distinct:
  "distinct (map enrichment_movieId ens) \<Longrightarrow> en \<in> set ens
     \<Longrightarrow> upsertAll t ens (enrichment_movieId en) = Some en"
proof (induction ens arbitrary: t)
  case Nil
  then show ?case by simp
next
  case (Cons a ens)
  show ?case
  proof (cases "en = a")
    case True
    then have "enrichment_movieId en \<notin> enrichment_movieId ` set ens" using Cons.prems by auto
    then show ?thesis using True upsertAll_other[of "enrichment_movieId en" ens]
      by (simp add: upsertAll_def)
  next
    case False
    then show ?thesis using Cons unfolding upsertAll_def by auto
  qed
qed

lemma distinct_without:
  assumes "distinct xs" "j < length xs"
  shows "distinct (take j xs @ drop (Suc j) xs)" "xs ! j \<notin> set (take j xs @ drop (Suc j) xs)"
proof -
  have "xs = take j xs @ [xs ! j] @ drop (Suc j) xs"
    using assms(2) by (simp add: id_take_nth_drop)
  then have "distinct (take j xs @ [xs ! j] @ drop (Suc j) xs)" using assms(1) by simp
  then show "distinct (take j xs @ drop (Suc j) xs)" "xs ! j \<notin> set (take j xs @ drop (Suc j) xs)"
    by auto
qed

lemma selectMoviesWithRatings_distinct:
  assumes "distinct (map movieId (movies db))"
  shows "distinct (map movieId (selectMoviesWithRatings db n))"
proof -
  let ?P = "\<lambda>m. \<exists>r \<in> set (ratings db). rating_movieId r = movieId m"
  from selectMoviesWithRatings_prefix[of db n] obtain k where
    k: "selectMoviesWithRatings db n = take k (filter ?P (movies db))" by blast
  have "distinct (map movieId (filter ?P (movies db)))"
    using assms by (rule distinct_map_filter)
  then have "distinct (take k (map movieId (filter ?P (movies db))))"
    by (rule distinct_take)
  then show ?thesis unfolding k by (simp only: take_map)
qed

lemma storedRow_ids: "map enrichment_movieId (map (storedRow e) ens) = map enrichment_movieId ens"
  by (simp add: storedRow_movieId comp_def)


lemma itemResult_None:
  "itemResult e db (i, m) = None \<longleftrightarrow> isl (enrichSingleMovie e i db m) \<or> writeFault e i"
  by (simp add: itemResult_eq split: sum.splits)

text \<open>
  Claim C3. \<open>enrichMovies\<close> has no error result: whatever an item raises is caught in
  the loop, which goes on to the next item with the list and the table as they were.
  When, of the \<open>N\<close> selected movies, exactly the item at position \<open>j\<close> fails (its
  oracle call fails or its write does), the returned list is the records of the other
  items in processing order, \<open>N - 1\<close> of them, one per movie other than the failed one;
  the table afterwards is the table before with exactly the rows of these records
  upserted (the row of a record holds each value as its column stores it: the id and
  the two metrics as they are, and the whole record as it is when the oracle-made values
  have their declared types). With the
  movie id a key of the catalogue, these are \<open>N - 1\<close> different rows, each stored under
  its movie's id, the failed movie's row is untouched, and a table empty before holds
  exactly \<open>N - 1\<close> rows after. The limit of the batch is any number, \<^verbatim>\<open>NaN\<close> included.
\<close>

theorem enrichMovies_one_failure:
  assumes "batch = selectMoviesWithRatings db n"
    and "j < length batch"
    and "itemResult e db (j, batch ! j) = None"
    and "\<forall>i < length batch. i \<noteq> j \<longrightarrow> itemResult e db (i, batch ! i) \<noteq> None"
  shows "fst (enrichMovies e db n)
           = map (\<lambda>i. the (itemResult e db (i, batch ! i))) ([0..<j] @ [Suc j..<length batch])
       \<and> length (fst (enrichMovies e db n)) = length batch - 1
       \<and> map enrichment_movieId (fst (enrichMovies e db n))
           = map movieId (take j batch @ drop (Suc j) batch)
       \<and> snd (enrichMovies e db n)
           = db\<lparr>movie_enrichments :=
                  upsertAll (movie_enrichments db)
                    (map (storedRow e) (fst (enrichMovies e db n)))\<rparr>
       \<and> (\<forall>i m. itemResult e db (i, m) = None
              \<longleftrightarrow> isl (enrichSingleMovie e i db m) \<or> writeFault e i)
       \<and> (\<forall>i d m ms acc. isl (processItem e i d m) \<longrightarrow>
              enrichLoop e i (m # ms) (acc, d) = enrichLoop e (Suc i) ms (acc, d))
       \<and> (\<forall>en. enrichment_movieId (storedRow e en) = enrichment_movieId en
              \<and> productionCompanyRollingROI (storedRow e en) = productionCompanyRollingROI en
              \<and> productionEffectivenessScore (storedRow e en) = productionEffectivenessScore en
              \<and> (hasDeclaredTypes en \<longrightarrow> storedRow e en = en))
       \<and> (movieIdIsKey db \<longrightarrow>
            card (enrichment_movieId ` set (fst (enrichMovies e db n))) = length batch - 1
            \<and> (\<forall>en \<in> set (fst (enrichMovies e db n)).
                  movie_enrichments (snd (enrichMovies e db n)) (enrichment_movieId en)
                    = Some (storedRow e en)
                  \<and> (hasDeclaredTypes en \<longrightarrow>
                        movie_enrichments (snd (enrichMovies e db n)) (enrichment_movieId en)
                          = Some en))
            \<and> movie_enrichments (snd (enrichMovies e db n)) (movieId (batch ! j))
                = movie_enrichments db (movieId (batch ! j))
            \<and> (movie_enrichments db = Map.empty \<longrightarrow>
                  card (dom (movie_enrichments (snd (enrichMovies e db n)))) = length batch - 1))"
proof -
  let ?res = "fst (enrichMovies e db n)"
  let ?idx = "[0..<j] @ [Suc j..<length batch]"
  have res: "?res = map (\<lambda>i. the (itemResult e db (i, batch ! i))) ?idx"
    using map_filter_one_failure[of j batch "itemResult e db", OF assms(2,3,4)]
    by (simp add: enrichMovies_eq assms(1))
  have len: "length ?res = length batch - 1"
    unfolding res using assms(2) by simp
  have ok: "\<forall>i \<in> set ?idx. enrichment_movieId (the (itemResult e db (i, batch ! i)))
      = movieId (batch ! i)"
  proof
    fix i
    assume "i \<in> set ?idx"
    then have "i < length batch" "i \<noteq> j" using assms(2) by auto
    then obtain en where "itemResult e db (i, batch ! i) = Some en" using assms(4) by auto
    then show "enrichment_movieId (the (itemResult e db (i, batch ! i))) = movieId (batch ! i)"
      using itemResult_movieId by simp
  qed
  have "map enrichment_movieId ?res = map (\<lambda>i. movieId (batch ! i)) ?idx"
    unfolding res map_map comp_def using ok by (intro map_cong) auto
  then have ids: "map enrichment_movieId ?res = map movieId (take j batch @ drop (Suc j) batch)"
    using nth_take_drop_map[OF assms(2), of movieId] by simp
  have db': "snd (enrichMovies e db n)
      = db\<lparr>movie_enrichments := upsertAll (movie_enrichments db) (map (storedRow e) ?res)\<rparr>"
    by (simp add: enrichMovies_eq)
  have key: "movieIdIsKey db \<longrightarrow>
            card (enrichment_movieId ` set ?res) = length batch - 1
            \<and> (\<forall>en \<in> set ?res.
                  movie_enrichments (snd (enrichMovies e db n)) (enrichment_movieId en)
                    = Some (storedRow e en)
                  \<and> (hasDeclaredTypes en \<longrightarrow>
                        movie_enrichments (snd (enrichMovies e db n)) (enrichment_movieId en)
                          = Some en))
            \<and> movie_enrichments (snd (enrichMovies e db n)) (movieId (batch ! j))
                = movie_enrichments db (movieId (batch ! j))
            \<and> (movie_enrichments db = Map.empty \<longrightarrow>
                  card (dom (movie_enrichments (snd (enrichMovies e db n)))) = length batch - 1)"
  proof
    assume "movieIdIsKey db"
    then have "distinct (map movieId (movies db))" by (simp add: movieIdIsKey_def)
    then have d: "distinct (map movieId batch)"
      unfolding assms(1) by (rule selectMoviesWithRatings_distinct)
    have j': "j < length (map movieId batch)" using assms(2) by simp
    have d1: "distinct (map enrichment_movieId ?res)"
      unfolding ids using distinct_without(1)[OF d j'] by (simp add: take_map drop_map)
    have notin: "movieId (batch ! j) \<notin> enrichment_movieId ` set ?res"
      using distinct_without(2)[OF d j'] ids assms(2)
      by (metis (no_types, lifting) drop_map image_set map_append nth_map take_map)
    have c: "card (enrichment_movieId ` set ?res) = length batch - 1"
      using distinct_card[OF d1] len by simp
    have d2: "distinct (map enrichment_movieId (map (storedRow e) ?res))"
      using d1 by (simp only: storedRow_ids)
    have img: "enrichment_movieId ` set (map (storedRow e) ?res) = enrichment_movieId ` set ?res"
      using storedRow_ids[of e ?res] by (metis image_set)
    have w: "\<forall>en \<in> set ?res.
        movie_enrichments (snd (enrichMovies e db n)) (enrichment_movieId en)
          = Some (storedRow e en)
        \<and> (hasDeclaredTypes en \<longrightarrow>
              movie_enrichments (snd (enrichMovies e db n)) (enrichment_movieId en) = Some en)"
    proof
      fix en
      assume "en \<in> set ?res"
      then have "storedRow e en \<in> set (map (storedRow e) ?res)" by simp
      from upsertAll_distinct[OF d2 this, of "movie_enrichments db"]
      have "movie_enrichments (snd (enrichMovies e db n)) (enrichment_movieId en)
          = Some (storedRow e en)"
        unfolding db' by (simp add: storedRow_movieId)
      then show "movie_enrichments (snd (enrichMovies e db n)) (enrichment_movieId en)
          = Some (storedRow e en)
        \<and> (hasDeclaredTypes en \<longrightarrow>
              movie_enrichments (snd (enrichMovies e db n)) (enrichment_movieId en) = Some en)"
        using storedRow_declared[of en e] by simp
    qed
    have notin': "movieId (batch ! j) \<notin> enrichment_movieId ` set (map (storedRow e) ?res)"
      unfolding img by (rule notin)
    have u: "movie_enrichments (snd (enrichMovies e db n)) (movieId (batch ! j))
                = movie_enrichments db (movieId (batch ! j))"
      unfolding db' using upsertAll_other[OF notin'] by simp
    have e: "movie_enrichments db = Map.empty \<longrightarrow>
                  card (dom (movie_enrichments (snd (enrichMovies e db n)))) = length batch - 1"
      unfolding db' using c by (simp add: dom_upsertAll img del: set_map)
    show "card (enrichment_movieId ` set ?res) = length batch - 1
            \<and> (\<forall>en \<in> set ?res.
                  movie_enrichments (snd (enrichMovies e db n)) (enrichment_movieId en)
                    = Some (storedRow e en)
                  \<and> (hasDeclaredTypes en \<longrightarrow>
                        movie_enrichments (snd (enrichMovies e db n)) (enrichment_movieId en)
                          = Some en))
            \<and> movie_enrichments (snd (enrichMovies e db n)) (movieId (batch ! j))
                = movie_enrichments db (movieId (batch ! j))
            \<and> (movie_enrichments db = Map.empty \<longrightarrow>
                  card (dom (movie_enrichments (snd (enrichMovies e db n)))) = length batch - 1)"
      using c w u e by blast
  qed
  have catch: "\<forall>i d m ms acc. isl (processItem e i d m) \<longrightarrow>
      enrichLoop e i (m # ms) (acc, d) = enrichLoop e (Suc i) ms (acc, d)"
    by (auto simp add: isl_def)
  have row: "\<forall>en. enrichment_movieId (storedRow e en) = enrichment_movieId en
              \<and> productionCompanyRollingROI (storedRow e en) = productionCompanyRollingROI en
              \<and> productionEffectivenessScore (storedRow e en) = productionEffectivenessScore en
              \<and> (hasDeclaredTypes en \<longrightarrow> storedRow e en = en)"
    using storedRow_declared by (simp add: storedRow_movieId storedRow_metrics)
  show ?thesis using res len ids db' key row itemResult_None catch by blast
qed

subsection \<open>What the batch persists\<close>

lemma upsertAll_rows:
  "upsertAll t ens k = Some en \<Longrightarrow> t k = Some en \<or> en \<in> set ens"
proof (induction ens arbitrary: t)
  case Nil
  then show ?case by (simp add: upsertAll_def)
next
  case (Cons a ens)
  from Cons.prems have "upsertAll (t(enrichment_movieId a \<mapsto> a)) ens k = Some en"
    by (simp add: upsertAll_def)
  from Cons.IH[OF this] show ?case by (auto split: if_splits)
qed

lemma enrichMovies_records:
  assumes "en \<in> set (fst (enrichMovies e db n))"
  shows "\<exists>i m. enrichSingleMovie e i db m = Inr en"
proof -
  from assms obtain i m where "itemResult e db (i, m) = Some en"
    by (auto simp add: enrichMovies_eq List.map_filter_def)
  then have "enrichSingleMovie e i db m = Inr en"
    by (simp add: itemResult_eq split: sum.splits if_splits)
  then show ?thesis by blast
qed

lemma enrichMovies_rows:
  assumes "movie_enrichments (snd (enrichMovies e db n)) k = Some row"
  shows "movie_enrichments db k = Some row
         \<or> (\<exists>en \<in> set (fst (enrichMovies e db n)). row = storedRow e en)"
proof -
  let ?res = "fst (enrichMovies e db n)"
  have "upsertAll (movie_enrichments db) (map (storedRow e) ?res) k = Some row"
    using assms by (simp add: enrichMovies_eq)
  from upsertAll_rows[OF this] show ?thesis by auto
qed

lemma enrichSingleMovie_truthy:
  assumes "enrichSingleMovie e i db movie = Inr enrichment"
  shows "truthy (popularityQualityIndex enrichment)"
proof -
  from enrichSingleMovie_Inr(1)[OF assms] obtain c where
    "popularityQualityIndex enrichment = llm_popularityQualityIndex (parseLLMEnrichments e c)"
    by blast
  then show ?thesis using parseLLMEnrichments_truthy[of e c] by simp
qed

lemma enrichSingleMovie_nonzero:
  assumes "enrichSingleMovie e i db movie = Inr enrichment"
  shows "popularityQualityIndex enrichment \<noteq> JNum 0"
  using enrichSingleMovie_truthy[OF assms] by auto

lemma storedRow_index:
  "popularityQualityIndex (storedRow e en) = columnValue e REAL (popularityQualityIndex en)"
  by (simp add: storedRow_def)

lemma columnValue_truthy:
  "truthy v \<Longrightarrow> \<forall>x. v \<noteq> JNum x \<Longrightarrow> columnValue e REAL v = converted e REAL v"
  by (cases v) simp_all

text \<open>
  Claim C9, amended. When the reply is well-formed JSON that carries a key with a falsy
  value (the number 0 and the empty string are falsy), \<open>getLLMEnrichments\<close> puts the
  default in its place: \<open>Medium\<close> for \<open>awardPotential\<close>, \<open>50\<close> for
  \<open>popularityQualityIndex\<close>, \<open>emotional\<close> for \<open>emotionalGenres\<close>. So the index it
  returns is truthy, never the number 0, and so is the index of every enrichment record
  \<open>enrichSingleMovie\<close> builds and of every record \<open>enrichMovies\<close> returns. A row
  \<open>enrichMovies\<close> writes to the table holds what the \<^verbatim>\<open>REAL\<close> column stores of
  such a truthy index: a number as it is, hence never 0, and another value as SQLite
  converts it. So a row written with the index 0 comes from a truthy index that was no
  number and that the column converted to 0, as it does the text \<^verbatim>\<open>"0"\<close>.
\<close>

theorem getLLMEnrichments_falsy:
  "(JSON_parse e c = Some parsed \<and> getProp parsed ''awardPotential'' = Inr (Some v) \<and> \<not> truthy v
      \<longrightarrow> llm_awardPotential (parseLLMEnrichments e c) = JStr ''Medium'')
   \<and> (JSON_parse e c = Some parsed \<and> getProp parsed ''popularityQualityIndex'' = Inr (Some v)
        \<and> \<not> truthy v
      \<longrightarrow> llm_popularityQualityIndex (parseLLMEnrichments e c) = JNum 50)
   \<and> (JSON_parse e c = Some parsed \<and> getProp parsed ''emotionalGenres'' = Inr (Some v) \<and> \<not> truthy v
      \<longrightarrow> llm_emotionalGenres (parseLLMEnrichments e c) = JStr ''emotional'')
   \<and> \<not> truthy (JNum 0) \<and> \<not> truthy (JStr [])
   \<and> llm_popularityQualityIndex (parseLLMEnrichments e c) \<noteq> JNum 0
   \<and> (enrichSingleMovie e i db movie = Inr enrichment
      \<longrightarrow> popularityQualityIndex enrichment \<noteq> JNum 0)
   \<and> (\<forall>en \<in> set (fst (enrichMovies e db n)).
         truthy (popularityQualityIndex en) \<and> popularityQualityIndex en \<noteq> JNum 0)
   \<and> (\<forall>k row. movie_enrichments (snd (enrichMovies e db n)) k = Some row
        \<longrightarrow> movie_enrichments db k = Some row
            \<or> (\<exists>en \<in> set (fst (enrichMovies e db n)).
                  row = storedRow e en \<and> truthy (popularityQualityIndex en)
                  \<and> popularityQualityIndex en \<noteq> JNum 0
                  \<and> popularityQualityIndex row
                      = columnValue e REAL (popularityQualityIndex en)))
   \<and> columnValue e REAL (JNum x) = JNum x
   \<and> (\<forall>k row. movie_enrichments (snd (enrichMovies e db n)) k = Some row
                 \<and> popularityQualityIndex row = JNum 0
        \<longrightarrow> movie_enrichments db k = Some row
            \<or> (\<exists>en \<in> set (fst (enrichMovies e db n)).
                  row = storedRow e en \<and> truthy (popularityQualityIndex en)
                  \<and> (\<forall>y. popularityQualityIndex en \<noteq> JNum y)
                  \<and> converted e REAL (popularityQualityIndex en) = JNum 0))"
proof (intro conjI impI ballI allI)
  assume h: "JSON_parse e c = Some parsed \<and> getProp parsed ''awardPotential'' = Inr (Some v)
    \<and> \<not> truthy v"
  then have n: "parsed \<noteq> JNull" using getProp_Inr_not_null by blast
  show "llm_awardPotential (parseLLMEnrichments e c) = JStr ''Medium''"
    using h by (simp add: parseLLMEnrichments_fields[OF _ n] orDefault_simps)
next
  assume h: "JSON_parse e c = Some parsed \<and> getProp parsed ''popularityQualityIndex'' = Inr (Some v)
    \<and> \<not> truthy v"
  then have n: "parsed \<noteq> JNull" using getProp_Inr_not_null by blast
  show "llm_popularityQualityIndex (parseLLMEnrichments e c) = JNum 50"
    using h by (simp add: parseLLMEnrichments_fields[OF _ n] orDefault_simps)
next
  assume h: "JSON_parse e c = Some parsed \<and> getProp parsed ''emotionalGenres'' = Inr (Some v)
    \<and> \<not> truthy v"
  then have n: "parsed \<noteq> JNull" using getProp_Inr_not_null by blast
  show "llm_emotionalGenres (parseLLMEnrichments e c) = JStr ''emotional''"
    using h by (simp add: parseLLMEnrichments_fields[OF _ n] orDefault_simps)
next
  show "\<not> truthy (JNum 0)" by simp
  show "\<not> truthy (JStr [])" by simp
  show "llm_popularityQualityIndex (parseLLMEnrichments e c) \<noteq> JNum 0"
    using parseLLMEnrichments_truthy[of e c] by auto
next
  assume "enrichSingleMovie e i db movie = Inr enrichment"
  from enrichSingleMovie_Inr(1)[OF this] obtain c' where
    "popularityQualityIndex enrichment = llm_popularityQualityIndex (parseLLMEnrichments e c')"
    by blast
  then show "popularityQualityIndex enrichment \<noteq> JNum 0"
    using parseLLMEnrichments_truthy[of e c'] by auto
next
  fix en
  assume "en \<in> set (fst (enrichMovies e db n))"
  then show "truthy (popularityQualityIndex en)"
    using enrichMovies_records enrichSingleMovie_truthy by blast
next
  fix en
  assume "en \<in> set (fst (enrichMovies e db n))"
  then show "popularityQualityIndex en \<noteq> JNum 0"
    using enrichMovies_records enrichSingleMovie_nonzero by blast
next
  fix k row
  assume "movie_enrichments (snd (enrichMovies e db n)) k = Some row"
  from enrichMovies_rows[OF this]
  show "movie_enrichments db k = Some row
            \<or> (\<exists>en \<in> set (fst (enrichMovies e db n)).
                  row = storedRow e en \<and> truthy (popularityQualityIndex en)
                  \<and> popularityQualityIndex en \<noteq> JNum 0
                  \<and> popularityQualityIndex row
                      = columnValue e REAL (popularityQualityIndex en))"
  proof
    assume "movie_enrichments db k = Some row"
    then show ?thesis by simp
  next
    assume "\<exists>en \<in> set (fst (enrichMovies e db n)). row = storedRow e en"
    then obtain en where en: "en \<in> set (fst (enrichMovies e db n))" "row = storedRow e en"
      by blast
    from enrichMovies_records[OF en(1)] obtain i m where
      "enrichSingleMovie e i db m = Inr en" by blast
    then have "truthy (popularityQualityIndex en)" "popularityQualityIndex en \<noteq> JNum 0"
      using enrichSingleMovie_truthy enrichSingleMovie_nonzero by blast+
    then show ?thesis using en by (auto simp add: storedRow_index)
  qed
next
  show "columnValue e REAL (JNum x) = JNum x" by simp
next
  fix k row
  assume h: "movie_enrichments (snd (enrichMovies e db n)) k = Some row
                 \<and> popularityQualityIndex row = JNum 0"
  then have "movie_enrichments (snd (enrichMovies e db n)) k = Some row" by simp
  from enrichMovies_rows[OF this]
  show "movie_enrichments db k = Some row
            \<or> (\<exists>en \<in> set (fst (enrichMovies e db n)).
                  row = storedRow e en \<and> truthy (popularityQualityIndex en)
                  \<and> (\<forall>y. popularityQualityIndex en \<noteq> JNum y)
                  \<and> converted e REAL (popularityQualityIndex en) = JNum 0)"
  proof
    assume "movie_enrichments db k = Some row"
    then show ?thesis by simp
  next
    assume "\<exists>en \<in> set (fst (enrichMovies e db n)). row = storedRow e en"
    then obtain en where en: "en \<in> set (fst (enrichMovies e db n))" "row = storedRow e en"
      by blast
    from enrichMovies_records[OF en(1)] obtain i m where
      "enrichSingleMovie e i db m = Inr en" by blast
    then have t: "truthy (popularityQualityIndex en)" "popularityQualityIndex en \<noteq> JNum 0"
      using enrichSingleMovie_truthy enrichSingleMovie_nonzero by blast+
    have z: "columnValue e REAL (popularityQualityIndex en) = JNum 0"
      using h en(2) by (simp add: storedRow_index)
    have nn: "\<forall>y. popularityQualityIndex en \<noteq> JNum y"
    proof (intro allI notI)
      fix y
      assume "popularityQualityIndex en = JNum y"
      then show False using z t(2) by simp
    qed
    have "converted e REAL (popularityQualityIndex en) = JNum 0"
      using columnValue_truthy[OF t(1) nn, of e] z by simp
    then show ?thesis using en t(1) nn by blast
  qed
qed

subsection \<open>Comparison\<close>

lemma map_filter_join_fst:
  "map fst (List.map_filter (\<lambda>m. case t (movieId m) of None \<Rightarrow> None | Some e \<Rightarrow> Some (m, e)) ms)
     = filter (\<lambda>m. t (movieId m) \<noteq> None) ms"
  by (induction ms) (auto split: option.splits)

lemma enriched_fst:
  "map fst (getEnrichedMoviesWithDetails db)
     = filter (\<lambda>m. movie_enrichments db (movieId m) \<noteq> None) (movies db)"
  unfolding getEnrichedMoviesWithDetails_def by (rule map_filter_join_fst)

lemma enriched_ids_distinct:
  assumes "distinct (map movieId (movies db))"
  shows "distinct (map (\<lambda>m. movieId (fst m)) (getEnrichedMoviesWithDetails db))"
proof -
  have "map (\<lambda>m. movieId (fst m)) (getEnrichedMoviesWithDetails db)
      = map movieId (map fst (getEnrichedMoviesWithDetails db))" by simp
  also have "\<dots> = map movieId (filter (\<lambda>m. movie_enrichments db (movieId m) \<noteq> None) (movies db))"
    by (simp only: enriched_fst)
  finally show ?thesis using assms by (simp only: distinct_map_filter)
qed

text \<open>
  Claim C10. When \<open>movieIds\<close> names an id twice (so it has at least two entries),
  \<open>compareMovies\<close> throws \<open>Some movies not found or not enriched\<close>, whether or not
  the listed movies exist and are enriched. The movie id is the key of the catalogue
  (\<open>getMovieById\<close> reads one row per id, the enrichment table has the id as its
  primary key), so the enriched rows matching the list have pairwise different ids and
  there are fewer of them than entries in the list.
\<close>

theorem compareMovies_duplicate_ids:
  assumes "\<not> distinct movieIds"
    and "2 \<le> length movieIds"
    and "movieIdIsKey db"
  shows "compareMovies e db movieIds uid = Inl (Error ''Some movies not found or not enriched'')"
proof -
  let ?ms = "filter (\<lambda>m. movieId (fst m) \<in> set movieIds) (getEnrichedMoviesWithDetails db)"
  have d: "distinct (map (\<lambda>m. movieId (fst m)) ?ms)"
    using enriched_ids_distinct[OF assms(3)[unfolded movieIdIsKey_def]]
    by (rule distinct_map_filter)
  have sub: "set (map (\<lambda>m. movieId (fst m)) ?ms) \<subseteq> set movieIds" by auto
  have "length ?ms = card (set (map (\<lambda>m. movieId (fst m)) ?ms))"
    using distinct_card[OF d] by simp
  also have "\<dots> \<le> card (set movieIds)" using sub by (intro card_mono) simp_all
  also have "\<dots> < length movieIds"
    using assms(1) card_length[of movieIds] distinct_card[of movieIds] card_distinct[of movieIds]
    by (cases "card (set movieIds) = length movieIds") auto
  finally have "length ?ms \<noteq> length movieIds" by simp
  then show ?thesis using assms(2) by (simp add: compareMovies_def Let_def)
qed


subsection \<open>Recommendations\<close>








section \<open>The worked example\<close>

lemma example_ids:
  "movieId modestMovie = 2" "movieId exampleMovie = 1" "movieId blockbusterMovie = 3"
  "movieId sequelMovie = 4" "movieId earlyMovie = 5"
  by (simp_all add: modestMovie_def exampleMovie_def blockbusterMovie_def sequelMovie_def
      earlyMovie_def)

lemma example_rated:
  "\<exists>r \<in> set (ratings exampleDb). rating_movieId r = movieId exampleMovie"
  "\<exists>r \<in> set (ratings exampleDb). rating_movieId r = movieId blockbusterMovie"
  "\<exists>r \<in> set (ratings exampleDb). rating_movieId r = movieId sequelMovie"
  "\<forall>r \<in> set (ratings exampleDb). rating_movieId r \<noteq> movieId modestMovie"
  "\<forall>r \<in> set (ratings exampleDb). rating_movieId r \<noteq> movieId earlyMovie"
  by (simp_all add: exampleDb_def exampleRatings_def example_ids)

lemma example_movies:
  "movies exampleDb = [modestMovie, exampleMovie, blockbusterMovie, sequelMovie, earlyMovie]"
  by (simp add: exampleDb_def)

lemma example_rated_filter:
  "filter (\<lambda>m. \<exists>r \<in> set (ratings exampleDb). rating_movieId r = movieId m) (movies exampleDb)
     = [exampleMovie, blockbusterMovie, sequelMovie]"
  using example_rated by (simp add: example_movies)



lemma exampleParse_simps:
  \<open>JSON_parse exampleEnv ''not json'' = None\<close>
  \<open>JSON_parse exampleEnv ''{}'' = Some (JObj [])\<close>
  \<open>JSON_parse exampleEnv ''[]'' = Some (JArr [])\<close>
  \<open>JSON_parse exampleEnv ''{"awardPotential":"Low"}'' = Some (JObj [(''awardPotential'', JStr ''Low'')])\<close>
  \<open>JSON_parse exampleEnv ''{"awardPotential":"","popularityQualityIndex":0,"emotionalGenres":""}''
     = Some (JObj [(''awardPotential'', JStr []), (''popularityQualityIndex'', JNum 0),
                         (''emotionalGenres'', JStr [])])\<close>
  \<open>JSON_parse exampleEnv ''[{"name":"Acme"}]'' = Some (JArr [JObj [(''name'', JStr ''Acme'')]])\<close>
  by (simp_all add: exampleEnv_def exampleParse_def)

theorem getLLMEnrichments_defaults_witness:
  \<open>parseLLMEnrichments exampleEnv ''not json'' = defaultEnrichments
   \<and> llm_awardPotential (parseLLMEnrichments exampleEnv ''{}'') = JStr ''Medium''
   \<and> llm_awardPotential (parseLLMEnrichments exampleEnv ''{"awardPotential":"Low"}'') = JStr ''Low''
   \<and> llm_popularityQualityIndex (parseLLMEnrichments exampleEnv ''{"awardPotential":"Low"}'') = JNum 50
   \<and> llm_emotionalGenres (parseLLMEnrichments exampleEnv ''{"awardPotential":"Low"}'')
       = JStr ''emotional''
   \<and> getLLMEnrichments exampleEnv 0
        \<lparr> input_movie = exampleMovie, input_avgRating = 4, input_ratingCount = 1,
          input_companyROI = None \<rparr>
       = Inr (parseLLMEnrichments exampleEnv
               (trimmedOr (Some ''{"awardPotential":"High","popularityQualityIndex":87,"emotionalGenres":"dark, gritty"}'') ''{}''))\<close>
proof -
  let ?low = \<open>''{"awardPotential":"Low"}''\<close>
  let ?obj = "JObj [(''awardPotential'', JStr ''Low'')]"
  let ?input = "\<lparr> input_movie = exampleMovie, input_avgRating = 4, input_ratingCount = 1,
          input_companyROI = None \<rparr>"
  have a: "parseLLMEnrichments exampleEnv ''not json'' = defaultEnrichments"
    using getLLMEnrichments_defaults[of exampleEnv "''not json''"] exampleParse_simps(1) by simp
  have p: "JSON_parse exampleEnv ?low = Some ?obj" by (rule exampleParse_simps(4))
  have g: "getProp ?obj ''popularityQualityIndex'' = Inr None"
    "getProp ?obj ''emotionalGenres'' = Inr None" by simp_all
  have b: "llm_popularityQualityIndex (parseLLMEnrichments exampleEnv ?low) = JNum 50"
    "llm_emotionalGenres (parseLLMEnrichments exampleEnv ?low) = JStr ''emotional''"
    using getLLMEnrichments_defaults[of exampleEnv ?low ?obj] p g by simp_all
  have c: "llm_awardPotential (parseLLMEnrichments exampleEnv ?low) = JStr ''Low''"
    by (simp add: parseLLMEnrichments_def p orDefault_def)
  have o: \<open>complete exampleEnv 0 (EnrichmentPrompt (input_movie ?input) (input_avgRating ?input)
                       (input_ratingCount ?input))
      = Inr (Some ''{"awardPotential":"High","popularityQualityIndex":87,"emotionalGenres":"dark, gritty"}'')\<close>
    by (simp add: exampleEnv_def exampleOracle_def)
  have d: \<open>getLLMEnrichments exampleEnv 0 ?input
       = Inr (parseLLMEnrichments exampleEnv
               (trimmedOr (Some ''{"awardPotential":"High","popularityQualityIndex":87,"emotionalGenres":"dark, gritty"}'') ''{}''))\<close>
    using getLLMEnrichments_defaults[of exampleEnv _ _ 0 ?input] o by simp
  have "getProp (JObj []) ''awardPotential'' = Inr None" by simp
  then have m: "llm_awardPotential (parseLLMEnrichments exampleEnv ''{}'') = JStr ''Medium''"
    using getLLMEnrichments_defaults[of exampleEnv "''{}''" "JObj []"] exampleParse_simps(2)
    by simp
  show ?thesis using a b c d m by simp
qed

lemma textZero_item:
  "\<exists>en. itemResult textZeroEnv exampleDb (0, exampleMovie) = Some en
         \<and> popularityQualityIndex en = JStr ''0'' \<and> enrichment_movieId en = 1"
  by (simp add: itemResult_eq enrichSingleMovie_def getLLMEnrichments_def Let_def
      textZeroEnv_def textZeroOracle_def parseLLMEnrichments_def trimmedOr_def trim_def
      isWhiteSpace_def exampleParse_def orDefault_def example_ids)

lemma textZero_batch:
  "\<exists>en. fst (enrichMovies textZeroEnv exampleDb (Num 1)) = [en]
         \<and> movie_enrichments (snd (enrichMovies textZeroEnv exampleDb (Num 1))) 1
             = Some (storedRow textZeroEnv en)
         \<and> popularityQualityIndex en = JStr ''0''
         \<and> popularityQualityIndex (storedRow textZeroEnv en) = JNum 0"
proof -
  have b: "selectMoviesWithRatings exampleDb (Num 1) = [exampleMovie]"
    by (simp add: selectMoviesWithRatings_Num example_rated_filter)
  from textZero_item obtain en where
    en: "itemResult textZeroEnv exampleDb (0, exampleMovie) = Some en"
      "popularityQualityIndex en = JStr ''0''" "enrichment_movieId en = 1"
    by blast
  have r: "List.map_filter (itemResult textZeroEnv exampleDb) (enumerate 0 [exampleMovie]) = [en]"
    using en(1) by (simp add: List.map_filter_def)
  have m: "enrichMovies textZeroEnv exampleDb (Num 1)
      = ([en], exampleDb\<lparr>movie_enrichments :=
                  upsertAll (movie_enrichments exampleDb) [storedRow textZeroEnv en]\<rparr>)"
    by (simp only: enrichMovies_eq b r list.map)
  have s: "popularityQualityIndex (storedRow textZeroEnv en) = JNum 0"
    by (simp add: storedRow_index en(2) textZeroEnv_def exampleConverted_def)
  have t: "movie_enrichments (snd (enrichMovies textZeroEnv exampleDb (Num 1))) 1
      = Some (storedRow textZeroEnv en)"
    by (simp add: m upsertAll_def storedRow_movieId en(3))
  have f: "fst (enrichMovies textZeroEnv exampleDb (Num 1)) = [en]" by (simp add: m)
  show ?thesis using f t en(2) s by blast
qed

theorem getLLMEnrichments_falsy_witness:
  \<open>llm_awardPotential (parseLLMEnrichments exampleEnv
       ''{"awardPotential":"","popularityQualityIndex":0,"emotionalGenres":""}'') = JStr ''Medium''
   \<and> llm_popularityQualityIndex (parseLLMEnrichments exampleEnv
       ''{"awardPotential":"","popularityQualityIndex":0,"emotionalGenres":""}'') = JNum 50
   \<and> llm_emotionalGenres (parseLLMEnrichments exampleEnv
       ''{"awardPotential":"","popularityQualityIndex":0,"emotionalGenres":""}'') = JStr ''emotional''
   \<and> (\<exists>enrichment. enrichSingleMovie exampleEnv 2 exampleDb sequelMovie = Inr enrichment
         \<and> popularityQualityIndex enrichment \<noteq> JNum 0)
   \<and> (\<exists>row. movie_enrichments (snd (enrichMovies textZeroEnv exampleDb (Num 1))) 1 = Some row
         \<and> popularityQualityIndex row = JNum 0
         \<and> (\<exists>en \<in> set (fst (enrichMovies textZeroEnv exampleDb (Num 1))).
               row = storedRow textZeroEnv en \<and> truthy (popularityQualityIndex en)
               \<and> (\<forall>y. popularityQualityIndex en \<noteq> JNum y)
               \<and> converted textZeroEnv REAL (popularityQualityIndex en) = JNum 0))\<close>
proof -
  let ?c = \<open>''{"awardPotential":"","popularityQualityIndex":0,"emotionalGenres":""}''\<close>
  let ?obj = "JObj [(''awardPotential'', JStr []), (''popularityQualityIndex'', JNum 0),
                         (''emotionalGenres'', JStr [])]"
  have p: "JSON_parse exampleEnv ?c = Some ?obj" by (rule exampleParse_simps(5))
  have g: "getProp ?obj ''awardPotential'' = Inr (Some (JStr []))"
    "getProp ?obj ''popularityQualityIndex'' = Inr (Some (JNum 0))"
    "getProp ?obj ''emotionalGenres'' = Inr (Some (JStr []))" by simp_all
  have a: "llm_awardPotential (parseLLMEnrichments exampleEnv ?c) = JStr ''Medium''"
    using getLLMEnrichments_falsy[of exampleEnv ?c ?obj "JStr []"] p g by simp
  have b: "llm_popularityQualityIndex (parseLLMEnrichments exampleEnv ?c) = JNum 50"
    using getLLMEnrichments_falsy[of exampleEnv ?c ?obj "JNum 0"] p g by simp
  have c: "llm_emotionalGenres (parseLLMEnrichments exampleEnv ?c) = JStr ''emotional''"
    using getLLMEnrichments_falsy[of exampleEnv ?c ?obj "JStr []"] p g by simp
  obtain en where en: "enrichSingleMovie exampleEnv 2 exampleDb sequelMovie = Inr en"
    by (simp add: enrichSingleMovie_def getLLMEnrichments_def Let_def exampleEnv_def
        exampleOracle_def)
  then have d: "popularityQualityIndex en \<noteq> JNum 0"
    using getLLMEnrichments_falsy[of exampleEnv _ _ _ 2 exampleDb sequelMovie en] by simp
  from textZero_batch obtain z where
    z: "movie_enrichments (snd (enrichMovies textZeroEnv exampleDb (Num 1))) 1
         = Some (storedRow textZeroEnv z)"
      "popularityQualityIndex (storedRow textZeroEnv z) = JNum 0"
    by blast
  have "\<forall>k row. movie_enrichments (snd (enrichMovies textZeroEnv exampleDb (Num 1))) k = Some row
                 \<and> popularityQualityIndex row = JNum 0
        \<longrightarrow> movie_enrichments exampleDb k = Some row
            \<or> (\<exists>en \<in> set (fst (enrichMovies textZeroEnv exampleDb (Num 1))).
                  row = storedRow textZeroEnv en \<and> truthy (popularityQualityIndex en)
                  \<and> (\<forall>y. popularityQualityIndex en \<noteq> JNum y)
                  \<and> converted textZeroEnv REAL (popularityQualityIndex en) = JNum 0)"
    using getLLMEnrichments_falsy[of textZeroEnv "[]" JNull JNull 0 exampleDb exampleMovie
        "exampleEnrichment 1" "Num 1" 0]
    by (elim conjE)
  then have "movie_enrichments exampleDb 1 = Some (storedRow textZeroEnv z)
            \<or> (\<exists>en \<in> set (fst (enrichMovies textZeroEnv exampleDb (Num 1))).
                  storedRow textZeroEnv z = storedRow textZeroEnv en
                  \<and> truthy (popularityQualityIndex en)
                  \<and> (\<forall>y. popularityQualityIndex en \<noteq> JNum y)
                  \<and> converted textZeroEnv REAL (popularityQualityIndex en) = JNum 0)"
    using z by blast
  moreover have "movie_enrichments exampleDb 1 = None" by (simp add: exampleDb_def)
  ultimately have r: "\<exists>row. movie_enrichments (snd (enrichMovies textZeroEnv exampleDb (Num 1))) 1
           = Some row
         \<and> popularityQualityIndex row = JNum 0
         \<and> (\<exists>en \<in> set (fst (enrichMovies textZeroEnv exampleDb (Num 1))).
               row = storedRow textZeroEnv en \<and> truthy (popularityQualityIndex en)
               \<and> (\<forall>y. popularityQualityIndex en \<noteq> JNum y)
               \<and> converted textZeroEnv REAL (popularityQualityIndex en) = JNum 0)"
    using z by auto
  show ?thesis using a b c en d r by simp
qed

text \<open>
  Claim C9 says that an index of 0 can never appear in a persisted enrichment. A reply
  that carries the index as the text \<^verbatim>\<open>"0"\<close> is truthy, so \<^verbatim>\<open>|| 50\<close> keeps it: the
  record \<open>enrichMovies\<close> returns has the index \<^verbatim>\<open>'0'\<close>, and the row it writes, in a
  column declared \<^verbatim>\<open>REAL\<close>, has the index \<open>0\<close>.
\<close>

theorem getLLMEnrichments_falsy_counterexample:
  "map popularityQualityIndex (fst (enrichMovies textZeroEnv exampleDb (Num 1))) = [JStr ''0'']
   \<and> truthy (JStr ''0'')
   \<and> map_option popularityQualityIndex
        (movie_enrichments (snd (enrichMovies textZeroEnv exampleDb (Num 1))) 1) = Some (JNum 0)"
proof -
  from textZero_batch obtain en where
    en: "fst (enrichMovies textZeroEnv exampleDb (Num 1)) = [en]"
      "movie_enrichments (snd (enrichMovies textZeroEnv exampleDb (Num 1))) 1
         = Some (storedRow textZeroEnv en)"
      "popularityQualityIndex en = JStr ''0''"
      "popularityQualityIndex (storedRow textZeroEnv en) = JNum 0"
    by blast
  show ?thesis by (simp add: en)
qed

lemma example_trim:
  "trim (productionCompanies sequelMovie) \<noteq> []" "trim (productionCompanies earlyMovie) \<noteq> []"
  by (simp_all add: sequelMovie_def earlyMovie_def trim_def isWhiteSpace_def)

lemma example_declared:
  "declaredCompanies exampleEnv sequelMovie = Some [JStr ''Acme'']"
  "declaredCompanies exampleEnv earlyMovie = Some [JStr ''Acme'']"
proof -
  have p: "parseCompanies exampleEnv (productionCompanies sequelMovie) = Inr [JStr ''Acme'']"
    "parseCompanies exampleEnv (productionCompanies earlyMovie) = Inr [JStr ''Acme'']"
    by (simp_all add: parseCompanies_def sequelMovie_def earlyMovie_def exampleParse_simps
        companyNameOf_def orDefault_def)
  show "declaredCompanies exampleEnv sequelMovie = Some [JStr ''Acme'']"
    "declaredCompanies exampleEnv earlyMovie = Some [JStr ''Acme'']"
    by (simp_all add: declaredCompanies_def example_trim p)
qed

lemma example_isCompanyMovie:
  "\<not> isCompanyMovie exampleEnv (JStr ''Acme'') modestMovie"
  "\<not> isCompanyMovie exampleEnv (JStr ''Acme'') exampleMovie"
  "\<not> isCompanyMovie exampleEnv (JStr ''Acme'') blockbusterMovie"
  "isCompanyMovie exampleEnv (JStr ''Acme'') sequelMovie"
  "isCompanyMovie exampleEnv (JStr ''Acme'') earlyMovie"
  by (simp_all add: isCompanyMovie_def modestMovie_def exampleMovie_def blockbusterMovie_def
      sequelMovie_def earlyMovie_def exampleParse_simps)

lemma example_dates:
  "releaseDate sequelMovie = ''2004-04-04''" "releaseDate earlyMovie = ''1999-09-09''"
  by (simp_all add: sequelMovie_def earlyMovie_def)

lemma example_listsCompany:
  "\<not> listsCompany exampleEnv (JStr ''Acme'') modestMovie"
  "\<not> listsCompany exampleEnv (JStr ''Acme'') exampleMovie"
  "\<not> listsCompany exampleEnv (JStr ''Acme'') blockbusterMovie"
  "listsCompany exampleEnv (JStr ''Acme'') sequelMovie"
  "listsCompany exampleEnv (JStr ''Acme'') earlyMovie"
  using example_isCompanyMovie by (simp_all only: isCompanyMovie_iff not_False_eq_True)

lemma example_prior:
  "priorCompanyMovies exampleEnv exampleDb sequelMovie (JStr ''Acme'') = [earlyMovie]"
  "priorCompanyMovies exampleEnv exampleDb earlyMovie (JStr ''Acme'') = []"
  by (simp_all add: priorCompanyMovies_def example_movies example_listsCompany example_dates)

theorem calculateCompanyROI_rolling_witness:
  "declaredCompanies exampleEnv sequelMovie = Some [JStr ''Acme'']
   \<and> priorCompanyMovies exampleEnv exampleDb sequelMovie (JStr ''Acme'') = [earlyMovie]
   \<and> budget earlyMovie = 100 \<and> revenue earlyMovie = 150
   \<and> calculateCompanyROI exampleEnv exampleDb sequelMovie = Some 50
   \<and> priorCompanyMovies exampleEnv exampleDb earlyMovie (JStr ''Acme'') = []
   \<and> calculateCompanyROI exampleEnv exampleDb earlyMovie = None
   \<and> calculateCompanyROI exampleEnv exampleDb exampleMovie = None
   \<and> isCompanyMovie exampleEnv (JStr ''Acme'') earlyMovie
   \<and> \<not> isCompanyMovie exampleEnv (JStr ''Other'') earlyMovie"
proof -
  have f: "budget earlyMovie = 100" "revenue earlyMovie = 150"
    by (simp_all add: earlyMovie_def)
  have "\<forall>p m. isCompanyMovie exampleEnv p m \<longleftrightarrow>
          (\<exists>cs. JSON_parse exampleEnv (if productionCompanies m = [] then ''[]''
                               else productionCompanies m) = Some (JArr cs)
               \<and> (\<exists>k < length cs.
                     (\<exists>n. getProp (cs ! k) ''name'' = Inr (Some n) \<and> strictEq n p)
                     \<and> JNull \<notin> set (take k cs)))"
    using calculateCompanyROI_rolling[of exampleEnv exampleDb sequelMovie] by (elim conjE)
  then have l: "\<And>p. isCompanyMovie exampleEnv p earlyMovie \<longleftrightarrow>
          (\<exists>cs. JSON_parse exampleEnv (if productionCompanies earlyMovie = [] then ''[]''
                               else productionCompanies earlyMovie) = Some (JArr cs)
               \<and> (\<exists>k < length cs.
                     (\<exists>n. getProp (cs ! k) ''name'' = Inr (Some n) \<and> strictEq n p)
                     \<and> JNull \<notin> set (take k cs)))"
    by blast
  have q: \<open>(if productionCompanies earlyMovie = [] then ''[]'' else productionCompanies earlyMovie)
      = ''[{"name":"Acme"}]''\<close>
    by (simp add: earlyMovie_def)
  have y: "isCompanyMovie exampleEnv (JStr ''Acme'') earlyMovie"
    unfolding l q by (simp add: exampleParse_simps)
  have n: "\<not> isCompanyMovie exampleEnv (JStr ''Other'') earlyMovie"
    unfolding l q by (simp add: exampleParse_simps)
  have a: "calculateCompanyROI exampleEnv exampleDb sequelMovie = Some 50"
    using calculateCompanyROI_rolling[of exampleEnv exampleDb sequelMovie]
      example_declared(1) example_prior(1) f by blast
  have b: "calculateCompanyROI exampleEnv exampleDb earlyMovie = None"
    using calculateCompanyROI_rolling[of exampleEnv exampleDb earlyMovie]
      example_declared(2) example_prior(2) by blast
  have "declaredCompanies exampleEnv exampleMovie = None"
    by (simp add: declaredCompanies_def exampleMovie_def trim_def)
  then have c: "calculateCompanyROI exampleEnv exampleDb exampleMovie = None"
    using calculateCompanyROI_rolling[of exampleEnv exampleDb exampleMovie] by blast
  show ?thesis using a b c f y n example_declared(1) example_prior by simp
qed

lemma example_batch:
  "selectMoviesWithRatings exampleDb (Num 3) = [exampleMovie, blockbusterMovie, sequelMovie]"
  by (simp add: selectMoviesWithRatings_Num example_rated_filter)

lemma example_itemResult:
  "itemResult exampleEnv exampleDb (0, exampleMovie) \<noteq> None"
  "itemResult exampleEnv exampleDb (Suc 0, blockbusterMovie) = None"
  "itemResult exampleEnv exampleDb (2, sequelMovie) \<noteq> None"
  by (simp_all add: itemResult_eq enrichSingleMovie_def getLLMEnrichments_def Let_def
      exampleEnv_def exampleOracle_def)

lemma example_catalogue_key: "movieIdIsKey exampleDb"
  by (simp add: movieIdIsKey_def example_movies example_ids)

theorem enrichMovies_one_failure_witness:
  "length (selectMoviesWithRatings exampleDb (Num 3)) = 3
   \<and> itemResult exampleEnv exampleDb (1, selectMoviesWithRatings exampleDb (Num 3) ! 1) = None
   \<and> length (fst (enrichMovies exampleEnv exampleDb (Num 3))) = 2
   \<and> map enrichment_movieId (fst (enrichMovies exampleEnv exampleDb (Num 3))) = [1, 4]
   \<and> card (dom (movie_enrichments (snd (enrichMovies exampleEnv exampleDb (Num 3))))) = 2
   \<and> movie_enrichments (snd (enrichMovies exampleEnv exampleDb (Num 3))) 3 = None"
proof -
  let ?batch = "[exampleMovie, blockbusterMovie, sequelMovie]"
  have b: "?batch = selectMoviesWithRatings exampleDb (Num 3)" by (simp add: example_batch)
  have j: "1 < length ?batch" by simp
  have f: "itemResult exampleEnv exampleDb (1, ?batch ! 1) = None"
    using example_itemResult(2) by simp
  have o: "\<forall>i < length ?batch. i \<noteq> 1 \<longrightarrow> itemResult exampleEnv exampleDb (i, ?batch ! i) \<noteq> None"
  proof (intro allI impI)
    fix i :: nat
    assume "i < length ?batch" "i \<noteq> 1"
    then have "i = 0 \<or> i = 2" by auto
    then show "itemResult exampleEnv exampleDb (i, ?batch ! i) \<noteq> None"
      using example_itemResult(1,3) by auto
  qed
  have e: "movie_enrichments exampleDb = Map.empty" by (simp add: exampleDb_def)
  note t = enrichMovies_one_failure[OF b j f o]
  from t have "length (fst (enrichMovies exampleEnv exampleDb (Num 3))) = length ?batch - 1"
    by (elim conjE)
  then have l: "length (fst (enrichMovies exampleEnv exampleDb (Num 3))) = 2" by simp
  from t have "map enrichment_movieId (fst (enrichMovies exampleEnv exampleDb (Num 3)))
      = map movieId (take 1 ?batch @ drop (Suc 1) ?batch)"
    by (elim conjE)
  then have i: "map enrichment_movieId (fst (enrichMovies exampleEnv exampleDb (Num 3))) = [1, 4]"
    by (simp add: example_ids)
  from t example_catalogue_key e
  have k: "movie_enrichments (snd (enrichMovies exampleEnv exampleDb (Num 3))) (movieId (?batch ! 1))
                = movie_enrichments exampleDb (movieId (?batch ! 1))"
    "card (dom (movie_enrichments (snd (enrichMovies exampleEnv exampleDb (Num 3))))) = length ?batch - 1"
    by blast+
  have c: "card (dom (movie_enrichments (snd (enrichMovies exampleEnv exampleDb (Num 3))))) = 2"
    using k(2) by simp
  have u: "movie_enrichments (snd (enrichMovies exampleEnv exampleDb (Num 3))) 3 = None"
    using k(1) e by (simp add: example_ids)
  show ?thesis using l i c u f by (simp add: example_batch)
qed

lemma example_enriched:
  "getEnrichedMoviesWithDetails enrichedDb =
     [(exampleMovie, exampleEnrichment 1), (blockbusterMovie, exampleEnrichment 3),
      (sequelMovie, exampleEnrichment 4)]"
  by (simp add: getEnrichedMoviesWithDetails_def enrichedDb_def example_movies example_ids)

lemma enrichedDb_movies: "movies enrichedDb = movies exampleDb"
  by (simp add: enrichedDb_def)

theorem compareMovies_duplicate_ids_witness:
  "\<not> distinct [4, 4 :: int] \<and> 2 \<le> length [4, 4 :: int]
   \<and> movieIdIsKey enrichedDb
   \<and> sequelMovie \<in> set (movies enrichedDb) \<and> movieId sequelMovie = 4
   \<and> movie_enrichments enrichedDb 4 = Some (exampleEnrichment 4)
   \<and> compareMovies exampleEnv enrichedDb [4, 4] None
       = Inl (Error ''Some movies not found or not enriched'')"
proof -
  have k: "movieIdIsKey enrichedDb"
    using example_catalogue_key by (simp only: movieIdIsKey_def enrichedDb_movies)
  have "compareMovies exampleEnv enrichedDb [4, 4] None
       = Inl (Error ''Some movies not found or not enriched'')"
    using compareMovies_duplicate_ids[of "[4, 4]" enrichedDb exampleEnv None, OF _ _ k] by simp
  then show ?thesis
    using k by (simp add: enrichedDb_def example_movies example_ids)
qed

lemma compareMovies_example_ok:
  "compareMovies exampleEnv enrichedDb [4, 1] None = Inr (JObj [])"
  by (simp add: compareMovies_def Let_def example_enriched example_ids exampleEnv_def
      exampleOracle_def trimmedOr_def trim_def isWhiteSpace_def exampleParse_def)







end
